theory Spec2Isabelle
  imports Main
begin

section \<open>Values, documents and the store\<close>

text \<open>
  The service of \<^verbatim>\<open>src/server.js\<close> keeps two collections (users, markers) in a
  document store and relays events to the subscribers of a push channel. The store and
  the subscribers are the state; every handler takes the state and returns the new one.
\<close>

type_synonym oid = nat

text \<open>
  A value as it arrives in a push-channel message (decoded JSON). The type parameter
  \<open>'n\<close> stands for the numbers of the language other than not-a-number, which JSON
  cannot carry.
\<close>

datatype 'n jsval = JUndefined | JNull | JBool bool | JNum 'n | JStr string

fun typeof :: "'n jsval \<Rightarrow> string" where
  "typeof JUndefined = ''undefined''"
| "typeof JNull = ''object''"
| "typeof (JBool b) = ''boolean''"
| "typeof (JNum x) = ''number''"
| "typeof (JStr s) = ''string''"

text \<open>\<^verbatim>\<open>userSchema\<close>: the password field holds the digest, never the plain text.\<close>

record 'n user =
  u_id :: oid
  u_name :: string
  u_email :: string
  u_password :: string
  u_latitude :: 'n
  u_longitude :: 'n
  u_createdAt :: nat

text \<open>\<^verbatim>\<open>markerSchema\<close>.\<close>

record 'n marker =
  m_id :: oid
  m_latitude :: 'n
  m_longitude :: 'n
  m_title :: string
  m_comment :: string
  m_color :: string
  m_photos :: "string list"
  m_videos :: "string list"
  m_createdBy :: "oid option"
  m_createdAt :: nat

text \<open>
  What is sent over the push channel: the event's name and its payload
  (\<^verbatim>\<open>allMarkers\<close>, \<^verbatim>\<open>newMarker\<close>, \<^verbatim>\<open>updatedMarker\<close>, \<^verbatim>\<open>positionsUpdate\<close>).
\<close>

datatype 'n payload =
    Markers "'n marker list"
  | MarkerDoc "'n marker"
  | Position oid string 'n 'n

type_synonym 'n event = "string \<times> 'n payload"

text \<open>
  Where the \<^verbatim>\<open>sendAllMarkers\<close> of a subscriber stands: \<^verbatim>\<open>Marker.find()\<close> is
  issued and the store has not run the query yet; the store has run it, and these are
  the markers it found; the markers have been sent.
\<close>

datatype 'n fetch = Querying | Found "'n marker list" | Sent

text \<open>
  A subscriber: its socket id, whether the transport still holds the connection, where
  its \<^verbatim>\<open>sendAllMarkers\<close> stands, and the events delivered to it so far, oldest first.
\<close>

record 'n socket =
  s_id :: nat
  s_connected :: bool
  s_fetch :: "'n fetch"
  s_received :: "'n event list"

text \<open>
  The state: the two collections in the order of insertion, the subscribers in the order
  of connection, the next document id the store assigns, and the time that
  \<^verbatim>\<open>Date.now\<close> reads for \<^verbatim>\<open>createdAt\<close>.
\<close>

record 'n state =
  users :: "'n user list"
  markers :: "'n marker list"
  sockets :: "'n socket list"
  next_oid :: oid
  clock :: nat

text \<open>
  What the handlers take from their libraries and from the language, as parameters:
  the digest of a password and the comparison of a password with a digest (bcrypt),
  \<^verbatim>\<open>parseFloat\<close> on a text (\<open>None\<close> is not-a-number), the store's cast of a text to
  a document id (\<open>None\<close>: the store refuses the text), and what \<^verbatim>\<open>findOne\<close> returns
  for a filter whose email is \<^verbatim>\<open>undefined\<close>.
\<close>

record 'n lib =
  bcrypt_hash_str :: "string \<Rightarrow> string"
  bcrypt_compare_str :: "string \<Rightarrow> string \<Rightarrow> bool"
  parseFloat_str :: "string \<Rightarrow> 'n option"
  castObjectId :: "string \<Rightarrow> oid option"
  findOne_undefined :: "'n user list \<Rightarrow> 'n user option"

text \<open>What a handler's \<^verbatim>\<open>catch\<close> can receive.\<close>

datatype error =
    BcryptArgumentsRequired
  | CastError string
  | ValidationError "string list"
  | DuplicateKey string

text \<open>
  A response: the status and the JSON body. \<open>ErrMessage e\<close> is
  \<^verbatim>\<open>{ message: err.message }\<close> for the error caught.
\<close>

datatype 'n resbody =
    Message string
  | ErrMessage error
  | UserBody oid string
  | MarkerBody "'n marker"

type_synonym 'n response = "nat \<times> 'n resbody"

text \<open>\<^verbatim>\<open>req.body\<close>: the fields sent, each a text.\<close>

type_synonym body = "string \<rightharpoonup> string"

section \<open>Registration and login\<close>

text \<open>\<^verbatim>\<open>bcrypt.hash(password, 10)\<close> rejects when the data is \<^verbatim>\<open>undefined\<close>.\<close>

definition bcrypt_hash :: "'n lib \<Rightarrow> string option \<Rightarrow> error + string" where
  "bcrypt_hash L data =
     (case data of
        None \<Rightarrow> Inl BcryptArgumentsRequired
      | Some p \<Rightarrow> Inr (bcrypt_hash_str L p))"

text \<open>\<^verbatim>\<open>bcrypt.compare(password, user.password)\<close>, likewise.\<close>

definition bcrypt_compare :: "'n lib \<Rightarrow> string option \<Rightarrow> string \<Rightarrow> error + bool" where
  "bcrypt_compare L data hash =
     (case data of
        None \<Rightarrow> Inl BcryptArgumentsRequired
      | Some p \<Rightarrow> Inr (bcrypt_compare_str L p hash))"

text \<open>\<^verbatim>\<open>User.findOne({ email })\<close>: the first user with that email, if any.\<close>

definition User_findOne :: "'n lib \<Rightarrow> 'n user list \<Rightarrow> string option \<Rightarrow> 'n user option" where
  "User_findOne L us email =
     (case email of
        Some e \<Rightarrow> find (\<lambda>u. u_email u = e) us
      | None \<Rightarrow> findOne_undefined L us)"

text \<open>
  The schema's \<^verbatim>\<open>required: true\<close> on a text field: the field is there and is not
  the empty text.
\<close>

fun checkRequired :: "string option \<Rightarrow> bool" where
  "checkRequired None = False"
| "checkRequired (Some s) = (s \<noteq> [])"

text \<open>
  \<^verbatim>\<open>User.create({ name, email, password })\<close>: the schema's validation, the unique
  index on the email, then the insertion with the defaults (position 0, 0).
\<close>

definition User_create ::
  "('n::zero) state \<Rightarrow> string option \<Rightarrow> string option \<Rightarrow> string option
     \<Rightarrow> error + ('n user \<times> 'n state)" where
  "User_create st name email password =
     (let invalid = map fst (filter (\<lambda>(path, v). \<not> checkRequired v)
                      [(''name'', name), (''email'', email), (''password'', password)]) in
      case (invalid, name, email, password) of
        ([], Some n, Some e, Some p) \<Rightarrow>
          if e \<in> set (map u_email (users st)) then Inl (DuplicateKey ''email'')
          else
            let newUser = \<lparr>u_id = next_oid st, u_name = n, u_email = e, u_password = p,
                            u_latitude = 0, u_longitude = 0, u_createdAt = clock st\<rparr>
            in Inr (newUser, st\<lparr>users := users st @ [newUser],
                                 next_oid := Suc (next_oid st)\<rparr>)
      | _ \<Rightarrow> Inl (ValidationError invalid))"

text \<open>
  \<^verbatim>\<open>app.post("/register")\<close>. The message of the 400 is the source's
  \<^verbatim>\<open>"Email deja utilise"\<close> with its accents, written by code unit (e acute is 0xE9,
  a grave is 0xE0).
\<close>

definition post_register ::
  "('n::zero) lib \<Rightarrow> 'n state \<Rightarrow> body \<Rightarrow> 'n response \<times> 'n state" where
  "post_register L st body =
     (let name = body ''name''; email = body ''email''; password = body ''password'' in
      case User_findOne L (users st) email of
        Some existingUser \<Rightarrow>
          ((400, Message (''Email d'' @ [CHR 0xE9] @ ''j'' @ [CHR 0xE0] @ '' utilis'' @ [CHR 0xE9])), st)
      | None \<Rightarrow>
          (case bcrypt_hash L password of
             Inl err \<Rightarrow> ((500, ErrMessage err), st)
           | Inr hashedPassword \<Rightarrow>
               (case User_create st name email (Some hashedPassword) of
                  Inl err \<Rightarrow> ((500, ErrMessage err), st)
                | Inr (newUser, st') \<Rightarrow>
                    ((201, UserBody (u_id newUser) (u_name newUser)), st'))))"

text \<open>\<^verbatim>\<open>app.post("/login")\<close>; \<^verbatim>\<open>res.json\<close> without a status answers 200.\<close>

definition post_login :: "'n lib \<Rightarrow> 'n state \<Rightarrow> body \<Rightarrow> 'n response \<times> 'n state" where
  "post_login L st body =
     (let email = body ''email''; password = body ''password'' in
      case User_findOne L (users st) email of
        None \<Rightarrow> ((400, Message ''Email ou mot de passe incorrect''), st)
      | Some user \<Rightarrow>
          (case bcrypt_compare L password (u_password user) of
             Inl err \<Rightarrow> ((500, ErrMessage err), st)
           | Inr isMatch \<Rightarrow>
               if \<not> isMatch then ((400, Message ''Email ou mot de passe incorrect''), st)
               else ((200, UserBody (u_id user) (u_name user)), st)))"

section \<open>The push channel\<close>

text \<open>
  \<^verbatim>\<open>socket.emit(event, payload)\<close>: the event reaches the subscriber while the
  transport holds its connection, and is dropped otherwise.
\<close>

definition socket_emit :: "'n socket \<Rightarrow> string \<Rightarrow> 'n payload \<Rightarrow> 'n socket" where
  "socket_emit s ev p =
     (if s_connected s then s\<lparr>s_received := s_received s @ [(ev, p)]\<rparr> else s)"

text \<open>\<^verbatim>\<open>io.emit(event, payload)\<close>: the same event to every subscriber.\<close>

definition io_emit :: "string \<Rightarrow> 'n payload \<Rightarrow> 'n state \<Rightarrow> 'n state" where
  "io_emit ev p st = st\<lparr>sockets := map (\<lambda>s. socket_emit s ev p) (sockets st)\<rparr>"

section \<open>Markers\<close>

text \<open>
  A file as the upload middleware hands it over: \<^verbatim>\<open>filename\<close> is the generated
  name (\<^verbatim>\<open>Date.now() + "-" + file.originalname\<close>), the only field the handlers read.
\<close>

record upfile =
  filename :: string

text \<open>
  A multipart request as the upload middleware hands it to the handler: the text fields,
  and \<^verbatim>\<open>req.files\<close>, whose \<^verbatim>\<open>photos\<close> and \<^verbatim>\<open>videos\<close> are there only when
  files were uploaded under that name.
\<close>

record req =
  req_body :: body
  files_photos :: "upfile list option"
  files_videos :: "upfile list option"

text \<open>\<^verbatim>\<open>parseFloat\<close> of a field: not-a-number when the field is \<^verbatim>\<open>undefined\<close>.\<close>

definition parseFloat :: "'n lib \<Rightarrow> string option \<Rightarrow> 'n option" where
  "parseFloat L v = (case v of None \<Rightarrow> None | Some s \<Rightarrow> parseFloat_str L s)"

text \<open>\<^verbatim>\<open>userId || null\<close>: the empty text is falsy.\<close>

definition or_null :: "string option \<Rightarrow> string option" where
  "or_null v = (case v of None \<Rightarrow> None | Some s \<Rightarrow> if s = [] then None else Some s)"

text \<open>\<^verbatim>\<open>req.files.photos.map(f => `/uploads/${f.filename}`)\<close>.\<close>

definition upload_paths :: "upfile list \<Rightarrow> string list" where
  "upload_paths fs = map (\<lambda>f. ''/uploads/'' @ filename f) fs"

text \<open>
  \<^verbatim>\<open>Marker.create({...})\<close>: the schema casts and validates (both coordinates are
  required numbers, and not-a-number is no number; the creator is a document id), fills
  in the defaults of the fields left \<^verbatim>\<open>undefined\<close>, and inserts.
\<close>

definition Marker_create ::
  "'n lib \<Rightarrow> 'n state \<Rightarrow> 'n option \<Rightarrow> 'n option \<Rightarrow> string option \<Rightarrow> string option
     \<Rightarrow> string option \<Rightarrow> string list \<Rightarrow> string list \<Rightarrow> string option
     \<Rightarrow> error + ('n marker \<times> 'n state)" where
  "Marker_create L st latitude longitude title comment color photos videos createdBy =
     (let invalid =
            (if latitude = None then [''latitude''] else []) @
            (if longitude = None then [''longitude''] else []) @
            (case createdBy of
               None \<Rightarrow> []
             | Some s \<Rightarrow> if castObjectId L s = None then [''createdBy''] else []) in
      case (invalid, latitude, longitude) of
        ([], Some lat, Some lng) \<Rightarrow>
          let newMarker =
                \<lparr>m_id = next_oid st, m_latitude = lat, m_longitude = lng,
                 m_title = (case title of None \<Rightarrow> [] | Some t \<Rightarrow> t),
                 m_comment = (case comment of None \<Rightarrow> [] | Some c \<Rightarrow> c),
                 m_color = (case color of None \<Rightarrow> ''#ff0000'' | Some c \<Rightarrow> c),
                 m_photos = photos, m_videos = videos,
                 m_createdBy = (case createdBy of None \<Rightarrow> None | Some s \<Rightarrow> castObjectId L s),
                 m_createdAt = clock st\<rparr>
          in Inr (newMarker, st\<lparr>markers := markers st @ [newMarker],
                                   next_oid := Suc (next_oid st)\<rparr>)
      | _ \<Rightarrow> Inl (ValidationError invalid))"

text \<open>\<^verbatim>\<open>app.post("/markers")\<close>.\<close>

definition post_markers :: "'n lib \<Rightarrow> 'n state \<Rightarrow> req \<Rightarrow> 'n response \<times> 'n state" where
  "post_markers L st rq =
     (let latitude = req_body rq ''latitude''; longitude = req_body rq ''longitude'';
          title = req_body rq ''title''; comment = req_body rq ''comment'';
          color = req_body rq ''color''; userId = req_body rq ''userId'';
          photos = (case files_photos rq of Some fs \<Rightarrow> upload_paths fs | None \<Rightarrow> []);
          videos = (case files_videos rq of Some fs \<Rightarrow> upload_paths fs | None \<Rightarrow> []) in
      case Marker_create L st (parseFloat L latitude) (parseFloat L longitude)
             title comment color photos videos (or_null userId) of
        Inl err \<Rightarrow> ((500, ErrMessage err), st)
      | Inr (newMarker, st') \<Rightarrow>
          ((201, MarkerBody newMarker), io_emit ''newMarker'' (MarkerDoc newMarker) st'))"

text \<open>
  \<^verbatim>\<open>Marker.findById(req.params.id)\<close>: the text is cast to a document id (the query
  is rejected when it cannot be), then looked up; \<open>Inr None\<close> is the source's
  \<^verbatim>\<open>null\<close>.
\<close>

definition Marker_findById :: "'n lib \<Rightarrow> 'n marker list \<Rightarrow> string \<Rightarrow> error + 'n marker option" where
  "Marker_findById L ms ident =
     (case castObjectId L ident of
        None \<Rightarrow> Inl (CastError ''_id'')
      | Some i \<Rightarrow> Inr (find (\<lambda>m. m_id m = i) ms))"

text \<open>Writing a document back: the first document that satisfies \<open>P\<close> is replaced.\<close>

fun replace_first :: "('a \<Rightarrow> bool) \<Rightarrow> 'a \<Rightarrow> 'a list \<Rightarrow> 'a list" where
  "replace_first P y [] = []"
| "replace_first P y (x # xs) = (if P x then y # xs else x # replace_first P y xs)"

text \<open>\<^verbatim>\<open>marker.save()\<close>: the fetched document is written back under its id.\<close>

definition Marker_save :: "'n state \<Rightarrow> 'n marker \<Rightarrow> 'n state" where
  "Marker_save st marker =
     st\<lparr>markers := replace_first (\<lambda>d. m_id d = m_id marker) marker (markers st)\<rparr>"

text \<open>
  \<^verbatim>\<open>app.patch("/markers/:id")\<close>. The message of the 404 is the source's
  \<^verbatim>\<open>"Marqueur non trouve"\<close> with its accent (e acute is 0xE9).
\<close>

definition patch_markers :: "'n lib \<Rightarrow> 'n state \<Rightarrow> string \<Rightarrow> req \<Rightarrow> 'n response \<times> 'n state" where
  "patch_markers L st ident rq =
     (let title = req_body rq ''title''; comment = req_body rq ''comment'';
          color = req_body rq ''color'' in
      case Marker_findById L (markers st) ident of
        Inl err \<Rightarrow> ((500, ErrMessage err), st)
      | Inr None \<Rightarrow> ((404, Message (''Marqueur non trouv'' @ [CHR 0xE9])), st)
      | Inr (Some marker) \<Rightarrow>
          let marker = (case title of Some t \<Rightarrow> marker\<lparr>m_title := t\<rparr> | None \<Rightarrow> marker);
              marker = (case comment of Some c \<Rightarrow> marker\<lparr>m_comment := c\<rparr> | None \<Rightarrow> marker);
              marker = (case color of Some c \<Rightarrow> marker\<lparr>m_color := c\<rparr> | None \<Rightarrow> marker);
              marker = (case files_photos rq of
                          Some fs \<Rightarrow> marker\<lparr>m_photos := m_photos marker @ upload_paths fs\<rparr>
                        | None \<Rightarrow> marker);
              marker = (case files_videos rq of
                          Some fs \<Rightarrow> marker\<lparr>m_videos := m_videos marker @ upload_paths fs\<rparr>
                        | None \<Rightarrow> marker)
          in ((200, MarkerBody marker), io_emit ''updatedMarker'' (MarkerDoc marker) (Marker_save st marker)))"

section \<open>Connections and position updates\<close>

text \<open>
  \<^verbatim>\<open>io.on("connection")\<close>, up to the \<^verbatim>\<open>await\<close> of \<^verbatim>\<open>sendAllMarkers\<close>: the
  subscriber is there, its handlers are registered, and \<^verbatim>\<open>Marker.find()\<close> is
  issued. Other handlers run before the fetch completes.
\<close>

definition connection :: "'n state \<Rightarrow> nat \<Rightarrow> 'n state" where
  "connection st sid =
     st\<lparr>sockets := sockets st @
           [\<lparr>s_id = sid, s_connected = True, s_fetch = Querying, s_received = []\<rparr>]\<rparr>"

text \<open>
  The store runs the \<^verbatim>\<open>Marker.find()\<close> of a subscriber's \<^verbatim>\<open>sendAllMarkers\<close>: what
  it finds is the collection as it is at that moment, and that is what the promise
  will resolve to, whatever is created or edited afterwards.
\<close>

definition Marker_find :: "'n state \<Rightarrow> nat \<Rightarrow> 'n state" where
  "Marker_find st sid =
     st\<lparr>sockets :=
           map (\<lambda>s. if s_id s = sid
                    then (case s_fetch s of
                            Querying \<Rightarrow> s\<lparr>s_fetch := Found (markers st)\<rparr>
                          | _ \<Rightarrow> s)
                    else s)
               (sockets st)\<rparr>"

text \<open>
  \<^verbatim>\<open>sendAllMarkers\<close> from its \<^verbatim>\<open>await\<close> on: the markers that the query found are
  sent to the subscriber that waits for them, and to no other.
\<close>

definition sendAllMarkers :: "'n state \<Rightarrow> nat \<Rightarrow> 'n state" where
  "sendAllMarkers st sid =
     st\<lparr>sockets :=
           map (\<lambda>s. if s_id s = sid
                    then (case s_fetch s of
                            Found found \<Rightarrow>
                              (socket_emit s ''allMarkers'' (Markers found))\<lparr>s_fetch := Sent\<rparr>
                          | _ \<Rightarrow> s)
                    else s)
               (sockets st)\<rparr>"

text \<open>\<^verbatim>\<open>socket.on("disconnect")\<close>: the handler logs; the transport lets the subscriber go.\<close>

definition disconnect :: "'n state \<Rightarrow> nat \<Rightarrow> 'n state" where
  "disconnect st sid =
     st\<lparr>sockets := map (\<lambda>s. if s_id s = sid then s\<lparr>s_connected := False\<rparr> else s) (sockets st)\<rparr>"

text \<open>
  The message of \<^verbatim>\<open>updatePosition\<close>: \<^verbatim>\<open>{ userId, latitude, longitude }\<close>, the
  user id a text, the coordinates any values.
\<close>

record 'n position_msg =
  p_userId :: string
  p_latitude :: "'n jsval"
  p_longitude :: "'n jsval"

text \<open>
  \<^verbatim>\<open>User.findByIdAndUpdate(userId, { latitude, longitude }, { new: true })\<close>: the
  id is cast as in \<open>Marker_findById\<close>; the user found is updated and returned as
  updated; \<open>None\<close> is the source's \<^verbatim>\<open>null\<close>.
\<close>

definition User_findByIdAndUpdate ::
  "'n lib \<Rightarrow> 'n state \<Rightarrow> string \<Rightarrow> 'n \<Rightarrow> 'n \<Rightarrow> error + ('n user option \<times> 'n state)" where
  "User_findByIdAndUpdate L st userId latitude longitude =
     (case castObjectId L userId of
        None \<Rightarrow> Inl (CastError ''_id'')
      | Some i \<Rightarrow>
          (case find (\<lambda>u. u_id u = i) (users st) of
             None \<Rightarrow> Inr (None, st)
           | Some u \<Rightarrow>
               let user = u\<lparr>u_latitude := latitude, u_longitude := longitude\<rparr>
               in Inr (Some user,
                       st\<lparr>users := replace_first (\<lambda>d. u_id d = i) user (users st)\<rparr>)))"

text \<open>
  \<^verbatim>\<open>socket.on("updatePosition")\<close>. Among the values a message carries, exactly the
  \<open>JNum\<close> ones have \<^verbatim>\<open>typeof\<close> \<^verbatim>\<open>"number"\<close>; every other message returns at the
  guard. Nothing is sent back to the sender on either \<^verbatim>\<open>return\<close> or in the
  \<^verbatim>\<open>catch\<close>.
\<close>

definition updatePosition :: "'n lib \<Rightarrow> 'n state \<Rightarrow> 'n position_msg \<Rightarrow> 'n state" where
  "updatePosition L st msg =
     (if typeof (p_latitude msg) \<noteq> ''number'' \<or> typeof (p_longitude msg) \<noteq> ''number'' then st
      else
        case (p_latitude msg, p_longitude msg) of
          (JNum latitude, JNum longitude) \<Rightarrow>
            (case User_findByIdAndUpdate L st (p_userId msg) latitude longitude of
               Inl err \<Rightarrow> st
             | Inr (None, st') \<Rightarrow> st'
             | Inr (Some user, st') \<Rightarrow>
                 io_emit ''positionsUpdate''
                   (Position (u_id user) (u_name user) (u_latitude user) (u_longitude user)) st')
        | _ \<Rightarrow> st)"

section \<open>The service as a transition system\<close>

text \<open>
  What happens to the service, one event at a time. A request handler runs from its
  request to its response; a connection is three events, the connection itself, the
  store running the query of its marker fetch, and the completion of the fetch, and
  other events may come between them.
\<close>

datatype 'n action =
    Connection nat
  | AllMarkersQueried nat
  | AllMarkersFetched nat
  | Disconnect nat
  | Register body
  | Login body
  | PostMarkers req
  | PatchMarkers string req
  | UpdatePosition "'n position_msg"

fun step :: "('n::zero) lib \<Rightarrow> 'n state \<Rightarrow> 'n action \<Rightarrow> 'n state" where
  "step L st (Connection sid) = connection st sid"
| "step L st (AllMarkersQueried sid) = Marker_find st sid"
| "step L st (AllMarkersFetched sid) = sendAllMarkers st sid"
| "step L st (Disconnect sid) = disconnect st sid"
| "step L st (Register b) = snd (post_register L st b)"
| "step L st (Login b) = snd (post_login L st b)"
| "step L st (PostMarkers rq) = snd (post_markers L st rq)"
| "step L st (PatchMarkers ident rq) = snd (patch_markers L st ident rq)"
| "step L st (UpdatePosition msg) = updatePosition L st msg"

definition run :: "('n::zero) lib \<Rightarrow> 'n state \<Rightarrow> 'n action list \<Rightarrow> 'n state" where
  "run L st acts = foldl (step L) st acts"

text \<open>The events a subscriber has received.\<close>

definition received :: "'n state \<Rightarrow> nat \<Rightarrow> 'n event list" where
  "received st sid = concat (map s_received (filter (\<lambda>s. s_id s = sid) (sockets st)))"

text \<open>Among the events received, those named \<^verbatim>\<open>allMarkers\<close>.\<close>

definition allMarkers_events :: "'n event list \<Rightarrow> 'n event list" where
  "allMarkers_events evs = filter (\<lambda>e. fst e = ''allMarkers'') evs"

section \<open>A concrete library and store\<close>

text \<open>
  One instance of the parameters, on which the handlers can be run: texts of decimal
  digits are the document ids and the numbers, the digest of a password is the
  password behind a fixed prefix, and a filter on an \<^verbatim>\<open>undefined\<close> email finds nobody.
\<close>

definition demo_digits :: "string \<Rightarrow> nat option" where
  "demo_digits s =
     (if s \<noteq> [] \<and> list_all (\<lambda>c. c \<in> set ''0123456789'') s
      then Some (foldl (\<lambda>n c. 10 * n + (of_char c - 48)) 0 s) else None)"

definition demo_lib :: "int lib" where
  "demo_lib =
     \<lparr>bcrypt_hash_str = (\<lambda>p. ''$2b$10$'' @ p),
      bcrypt_compare_str = (\<lambda>p h. h = ''$2b$10$'' @ p),
      parseFloat_str = (\<lambda>s. map_option int (demo_digits s)),
      castObjectId = demo_digits,
      findOne_undefined = (\<lambda>us. None)\<rparr>"

definition demo_user :: "int user" where
  "demo_user =
     \<lparr>u_id = 1, u_name = ''Ada'', u_email = ''ada@example.org'',
      u_password = ''$2b$10$secret'', u_latitude = 0, u_longitude = 0, u_createdAt = 0\<rparr>"

definition demo_state :: "int state" where
  "demo_state = \<lparr>users = [demo_user], markers = [], sockets = [], next_oid = 2, clock = 5\<rparr>"

text \<open>A store with one marker of three photos and one subscriber, and three requests.\<close>

definition demo_marker :: "int marker" where
  "demo_marker =
     \<lparr>m_id = 3, m_latitude = 48, m_longitude = 2, m_title = ''Tower'', m_comment = ''seen'',
      m_color = ''#ff0000'', m_photos = [''/uploads/1-a.jpg'', ''/uploads/2-b.jpg'', ''/uploads/3-c.jpg''],
      m_videos = [], m_createdBy = Some 1, m_createdAt = 4\<rparr>"

definition demo_socket :: "int socket" where
  "demo_socket = \<lparr>s_id = 7, s_connected = True, s_fetch = Sent, s_received = []\<rparr>"

definition demo_store :: "int state" where
  "demo_store = \<lparr>users = [demo_user], markers = [demo_marker], sockets = [demo_socket],
                  next_oid = 4, clock = 5\<rparr>"

definition demo_edit :: req where
  "demo_edit = \<lparr>req_body = [''title'' \<mapsto> [], ''color'' \<mapsto> ''#00ff00''],
                 files_photos = Some [\<lparr>filename = ''8-d.jpg''\<rparr>, \<lparr>filename = ''9-e.jpg''\<rparr>],
                 files_videos = None\<rparr>"

definition demo_create :: req where
  "demo_create = \<lparr>req_body = [''latitude'' \<mapsto> ''48'', ''longitude'' \<mapsto> ''2'', ''title'' \<mapsto> ''Eiffel''],
                   files_photos = None, files_videos = None\<rparr>"

definition demo_create_bad :: req where
  "demo_create_bad = \<lparr>req_body = [''latitude'' \<mapsto> ''abc'', ''longitude'' \<mapsto> ''2'', ''title'' \<mapsto> ''Eiffel''],
                   files_photos = None, files_videos = None\<rparr>"

text \<open>Two position messages: one of numbers, one whose latitude is a text.\<close>

definition demo_move :: "int position_msg" where
  "demo_move = \<lparr>p_userId = ''1'', p_latitude = JNum 48, p_longitude = JNum 2\<rparr>"

definition demo_move_text :: "int position_msg" where
  "demo_move_text = \<lparr>p_userId = ''1'', p_latitude = JStr ''abc'', p_longitude = JNum 2\<rparr>"

section \<open>Lookups and replacements in a collection\<close>

lemma find_email_Some:
  "e \<in> set (map u_email us) \<Longrightarrow> \<exists>u. find (\<lambda>u. u_email u = e) us = Some u"
  by (induction us) auto

lemma find_Some_holds: "find P xs = Some x \<Longrightarrow> P x"
  by (induction xs) (auto split: if_splits)

lemma find_replace_first:
  "find P xs = Some x \<Longrightarrow> P y \<Longrightarrow> find P (replace_first P y xs) = Some y"
  by (induction xs) (auto split: if_splits)

lemma find_replace_first_other:
  "(\<And>x. P x \<Longrightarrow> \<not> Q x) \<Longrightarrow> \<not> Q y \<Longrightarrow> find Q (replace_first P y xs) = find Q xs"
  by (induction xs) auto

lemma find_id_None: "i \<notin> set (map m_id ms) \<Longrightarrow> find (\<lambda>m. m_id m = i) ms = None"
  by (induction ms) auto

lemma length_replace_first: "length (replace_first P y xs) = length xs"
  by (induction xs) auto

lemma users_io_emit: "users (io_emit ev p st) = users st"
  by (simp add: io_emit_def)

lemma markers_io_emit: "markers (io_emit ev p st) = markers st"
  by (simp add: io_emit_def)

section \<open>Login\<close>



text \<open>
  The comparison has a third outcome: it rejects when the request carries no password,
  and the \<^verbatim>\<open>catch\<close> answers 500 when the email is a known one.
\<close>

lemma login_password_absent:
  "User_findOne L (users st) (body ''email'') = Some user \<Longrightarrow> body ''password'' = None \<Longrightarrow>
     post_login L st body = ((500, ErrMessage BcryptArgumentsRequired), st)"
  by (simp add: post_login_def bcrypt_compare_def)

section \<open>Registration\<close>

text \<open>
  C2. A registration whose email is the email of a stored user is answered 400 with
  the message \<^verbatim>\<open>Email deja utilise\<close> (accented in the source); no user is
  created: the store is the one before the request, and it holds as many users.
\<close>

theorem register_duplicate_email:
  assumes "body ''email'' = Some e" and "e \<in> set (map u_email (users st))"
  shows "post_register L st body =
           ((400, Message (''Email d'' @ [CHR 0xE9] @ ''j'' @ [CHR 0xE0] @ '' utilis'' @ [CHR 0xE9])), st)
         \<and> users (snd (post_register L st body)) = users st
         \<and> length (users (snd (post_register L st body))) = length (users st)"
proof -
  from assms(2) obtain u where "find (\<lambda>u. u_email u = e) (users st) = Some u"
    using find_email_Some by blast
  with assms(1) have "User_findOne L (users st) (body ''email'') = Some u"
    by (simp add: User_findOne_def)
  then show ?thesis
    by (simp add: post_register_def)
qed

text \<open>A second registration under the email of the stored user.\<close>

theorem register_duplicate_email_witness:
  "[''name'' \<mapsto> ''Eve'', ''email'' \<mapsto> ''ada@example.org'', ''password'' \<mapsto> ''pw''] ''email''
     = Some ''ada@example.org'' \<and>
   ''ada@example.org'' \<in> set (map u_email (users demo_state)) \<and>
   post_register demo_lib demo_state
       [''name'' \<mapsto> ''Eve'', ''email'' \<mapsto> ''ada@example.org'', ''password'' \<mapsto> ''pw'']
     = ((400, Message (''Email d'' @ [CHR 0xE9] @ ''j'' @ [CHR 0xE0] @ '' utilis'' @ [CHR 0xE9])),
        demo_state) \<and>
   length (users (snd (post_register demo_lib demo_state
       [''name'' \<mapsto> ''Eve'', ''email'' \<mapsto> ''ada@example.org'', ''password'' \<mapsto> ''pw'']))) = 1"
  using register_duplicate_email
          [of "[''name'' \<mapsto> ''Eve'', ''email'' \<mapsto> ''ada@example.org'', ''password'' \<mapsto> ''pw'']"
              "''ada@example.org''" demo_state demo_lib]
  by (simp add: demo_state_def demo_user_def)

text \<open>
  C10, as stated, fails: a registration without a password whose email is the email
  of a stored user is answered 400, since the handler looks the email up before it
  hashes.
\<close>

theorem register_password_absent_counterexample:
  "[''name'' \<mapsto> ''Eve'', ''email'' \<mapsto> ''ada@example.org''] ''password'' = None \<and>
   post_register demo_lib demo_state [''name'' \<mapsto> ''Eve'', ''email'' \<mapsto> ''ada@example.org'']
     = ((400, Message (''Email d'' @ [CHR 0xE9] @ ''j'' @ [CHR 0xE0] @ '' utilis'' @ [CHR 0xE9])),
        demo_state)"
  by (simp add: post_register_def User_findOne_def demo_state_def demo_user_def)

text \<open>
  C10, amended. A registration without a password creates no user. When the lookup of
  its email finds nobody, the hashing step rejects and the request is answered 500;
  when the lookup finds a user, the request is answered 400 with the duplicate-email
  message.
\<close>

theorem register_password_absent:
  assumes "body ''password'' = None"
  shows "snd (post_register L st body) = st \<and>
         (User_findOne L (users st) (body ''email'') = None \<longrightarrow>
            fst (post_register L st body) = (500, ErrMessage BcryptArgumentsRequired)) \<and>
         (\<forall>u. User_findOne L (users st) (body ''email'') = Some u \<longrightarrow>
            fst (post_register L st body) =
              (400, Message (''Email d'' @ [CHR 0xE9] @ ''j'' @ [CHR 0xE0] @ '' utilis'' @ [CHR 0xE9])))"
  using assms by (simp add: post_register_def bcrypt_hash_def Let_def split: option.splits)

text \<open>A registration without a password under an email nobody holds.\<close>

theorem register_password_absent_witness:
  "[''name'' \<mapsto> ''Bob'', ''email'' \<mapsto> ''bob@example.org''] ''password'' = None \<and>
   User_findOne demo_lib (users demo_state)
     ([''name'' \<mapsto> ''Bob'', ''email'' \<mapsto> ''bob@example.org''] ''email'') = None \<and>
   post_register demo_lib demo_state [''name'' \<mapsto> ''Bob'', ''email'' \<mapsto> ''bob@example.org'']
     = ((500, ErrMessage BcryptArgumentsRequired), demo_state)"
  using register_password_absent
          [of "[''name'' \<mapsto> ''Bob'', ''email'' \<mapsto> ''bob@example.org'']" demo_lib demo_state]
  by (simp add: User_findOne_def demo_state_def demo_user_def prod_eq_iff)

section \<open>Editing and creating markers\<close>

lemma replace_first_split:
  "find P xs = Some x \<Longrightarrow>
     \<exists>front rest. xs = front @ x # rest \<and> (\<forall>b\<in>set front. \<not> P b)
        \<and> replace_first P y xs = front @ y # rest"
proof (induction xs)
  case Nil
  then show ?case by simp
next
  case (Cons a xs)
  show ?case
  proof (cases "P a")
    case True
    with Cons.prems have "a = x" by simp
    with True have "a # xs = [] @ x # xs \<and> (\<forall>b\<in>set []. \<not> P b)
        \<and> replace_first P y (a # xs) = [] @ y # xs"
      by simp
    then show ?thesis by blast
  next
    case False
    with Cons.prems have "find P xs = Some x" by simp
    from Cons.IH [OF this] obtain front rest where
      "xs = front @ x # rest" "\<forall>b\<in>set front. \<not> P b" "replace_first P y xs = front @ y # rest"
      by blast
    with False have "a # xs = (a # front) @ x # rest \<and> (\<forall>b\<in>set (a # front). \<not> P b)
        \<and> replace_first P y (a # xs) = (a # front) @ y # rest"
      by simp
    then show ?thesis by blast
  qed
qed

text \<open>What an edit of a stored marker returns, stores and leaves alone.\<close>

lemma patch_markers_found:
  assumes "Marker_findById L (markers st) ident = Inr (Some m)"
  shows "\<exists>m' front rest. patch_markers L st ident rq =
                ((200, MarkerBody m'), io_emit ''updatedMarker'' (MarkerDoc m') (Marker_save st m'))
            \<and> Marker_findById L (markers (snd (patch_markers L st ident rq))) ident = Inr (Some m')
            \<and> markers st = front @ m # rest \<and> (\<forall>d\<in>set front. m_id d \<noteq> m_id m)
            \<and> markers (snd (patch_markers L st ident rq)) = front @ m' # rest
            \<and> users (snd (patch_markers L st ident rq)) = users st
            \<and> m_id m' = m_id m \<and> m_latitude m' = m_latitude m \<and> m_longitude m' = m_longitude m
            \<and> m_createdBy m' = m_createdBy m \<and> m_createdAt m' = m_createdAt m
            \<and> m_title m' = (case req_body rq ''title'' of Some t \<Rightarrow> t | None \<Rightarrow> m_title m)
            \<and> m_comment m' = (case req_body rq ''comment'' of Some c \<Rightarrow> c | None \<Rightarrow> m_comment m)
            \<and> m_color m' = (case req_body rq ''color'' of Some c \<Rightarrow> c | None \<Rightarrow> m_color m)
            \<and> m_photos m' = m_photos m @ (case files_photos rq of Some fs \<Rightarrow> upload_paths fs | None \<Rightarrow> [])
            \<and> m_videos m' = m_videos m @ (case files_videos rq of Some fs \<Rightarrow> upload_paths fs | None \<Rightarrow> [])"
proof -
  from assms obtain i where i: "castObjectId L ident = Some i"
    and f: "find (\<lambda>d. m_id d = i) (markers st) = Some m"
    by (auto simp: Marker_findById_def split: option.splits)
  from f have mi: "m_id m = i" by (rule find_Some_holds)
  define m1 where "m1 = (case req_body rq ''title'' of Some t \<Rightarrow> m\<lparr>m_title := t\<rparr> | None \<Rightarrow> m)"
  define m2 where "m2 = (case req_body rq ''comment'' of Some c \<Rightarrow> m1\<lparr>m_comment := c\<rparr> | None \<Rightarrow> m1)"
  define m3 where "m3 = (case req_body rq ''color'' of Some c \<Rightarrow> m2\<lparr>m_color := c\<rparr> | None \<Rightarrow> m2)"
  define m4 where "m4 = (case files_photos rq of
                          Some fs \<Rightarrow> m3\<lparr>m_photos := m_photos m3 @ upload_paths fs\<rparr> | None \<Rightarrow> m3)"
  define m5 where "m5 = (case files_videos rq of
                          Some fs \<Rightarrow> m4\<lparr>m_videos := m_videos m4 @ upload_paths fs\<rparr> | None \<Rightarrow> m4)"
  have run: "patch_markers L st ident rq =
               ((200, MarkerBody m5), io_emit ''updatedMarker'' (MarkerDoc m5) (Marker_save st m5))"
    using assms by (simp add: patch_markers_def Let_def m1_def m2_def m3_def m4_def m5_def split: option.splits)
  have fields: "m_id m5 = m_id m" "m_latitude m5 = m_latitude m" "m_longitude m5 = m_longitude m"
    "m_createdBy m5 = m_createdBy m" "m_createdAt m5 = m_createdAt m"
    "m_title m5 = (case req_body rq ''title'' of Some t \<Rightarrow> t | None \<Rightarrow> m_title m)"
    "m_comment m5 = (case req_body rq ''comment'' of Some c \<Rightarrow> c | None \<Rightarrow> m_comment m)"
    "m_color m5 = (case req_body rq ''color'' of Some c \<Rightarrow> c | None \<Rightarrow> m_color m)"
    "m_photos m5 = m_photos m @ (case files_photos rq of Some fs \<Rightarrow> upload_paths fs | None \<Rightarrow> [])"
    "m_videos m5 = m_videos m @ (case files_videos rq of Some fs \<Rightarrow> upload_paths fs | None \<Rightarrow> [])"
    by (simp_all add: m1_def m2_def m3_def m4_def m5_def split: option.splits)
  have after: "markers (snd (patch_markers L st ident rq))
                 = replace_first (\<lambda>d. m_id d = i) m5 (markers st)"
    "users (snd (patch_markers L st ident rq)) = users st"
    using fields(1) mi by (simp_all add: run markers_io_emit users_io_emit Marker_save_def)
  have "find (\<lambda>d. m_id d = i) (replace_first (\<lambda>d. m_id d = i) m5 (markers st)) = Some m5"
    using f fields(1) mi by (intro find_replace_first) auto
  then have stored: "Marker_findById L (markers (snd (patch_markers L st ident rq))) ident = Inr (Some m5)"
    by (simp add: after Marker_findById_def i)
  from replace_first_split [OF f, of m5] obtain front rest where
    "markers st = front @ m # rest" "\<forall>d\<in>set front. m_id d \<noteq> i"
    "replace_first (\<lambda>d. m_id d = i) m5 (markers st) = front @ m5 # rest"
    by blast
  then have split: "markers st = front @ m # rest" "\<forall>d\<in>set front. m_id d \<noteq> m_id m"
    "markers (snd (patch_markers L st ident rq)) = front @ m5 # rest"
    by (simp_all add: after mi)
  from run stored split after(2) fields show ?thesis by blast
qed

text \<open>
  C3. An edit of a stored marker is answered 200 with the edited document. In the
  collection after the edit, the edited document stands where the first marker of that
  id stood, and every other marker is as it was and where it was; the edited document
  is the one found under the id, and the users are as they were. Each of the title,
  comment and color of the edited document is the text sent under that name when the
  request carries the field, the empty text included, and the value stored before when
  the request does not carry it.
\<close>

theorem patch_markers_text_fields:
  assumes "Marker_findById L (markers st) ident = Inr (Some m)"
  shows "\<exists>m' front rest. fst (patch_markers L st ident rq) = (200, MarkerBody m')
            \<and> markers st = front @ m # rest \<and> (\<forall>d\<in>set front. m_id d \<noteq> m_id m)
            \<and> markers (snd (patch_markers L st ident rq)) = front @ m' # rest
            \<and> users (snd (patch_markers L st ident rq)) = users st
            \<and> Marker_findById L (markers (snd (patch_markers L st ident rq))) ident = Inr (Some m')
            \<and> m_id m' = m_id m
            \<and> m_title m' = (case req_body rq ''title'' of Some t \<Rightarrow> t | None \<Rightarrow> m_title m)
            \<and> m_comment m' = (case req_body rq ''comment'' of Some c \<Rightarrow> c | None \<Rightarrow> m_comment m)
            \<and> m_color m' = (case req_body rq ''color'' of Some c \<Rightarrow> c | None \<Rightarrow> m_color m)"
proof -
  from patch_markers_found [OF assms, of rq] obtain m' front rest where
    "patch_markers L st ident rq =
       ((200, MarkerBody m'), io_emit ''updatedMarker'' (MarkerDoc m') (Marker_save st m'))"
    "markers st = front @ m # rest" "\<forall>d\<in>set front. m_id d \<noteq> m_id m"
    "markers (snd (patch_markers L st ident rq)) = front @ m' # rest"
    "users (snd (patch_markers L st ident rq)) = users st"
    "Marker_findById L (markers (snd (patch_markers L st ident rq))) ident = Inr (Some m')"
    "m_id m' = m_id m"
    "m_title m' = (case req_body rq ''title'' of Some t \<Rightarrow> t | None \<Rightarrow> m_title m)"
    "m_comment m' = (case req_body rq ''comment'' of Some c \<Rightarrow> c | None \<Rightarrow> m_comment m)"
    "m_color m' = (case req_body rq ''color'' of Some c \<Rightarrow> c | None \<Rightarrow> m_color m)"
    by blast
  then have "fst (patch_markers L st ident rq) = (200, MarkerBody m')
            \<and> markers st = front @ m # rest \<and> (\<forall>d\<in>set front. m_id d \<noteq> m_id m)
            \<and> markers (snd (patch_markers L st ident rq)) = front @ m' # rest
            \<and> users (snd (patch_markers L st ident rq)) = users st
            \<and> Marker_findById L (markers (snd (patch_markers L st ident rq))) ident = Inr (Some m')
            \<and> m_id m' = m_id m
            \<and> m_title m' = (case req_body rq ''title'' of Some t \<Rightarrow> t | None \<Rightarrow> m_title m)
            \<and> m_comment m' = (case req_body rq ''comment'' of Some c \<Rightarrow> c | None \<Rightarrow> m_comment m)
            \<and> m_color m' = (case req_body rq ''color'' of Some c \<Rightarrow> c | None \<Rightarrow> m_color m)"
    by simp
  then show ?thesis by (intro exI)
qed

text \<open>
  An edit that sends the empty title and a color and no comment, on the store of one
  marker: the collection after it is the one edited marker, its title emptied, its color
  replaced, its comment kept.
\<close>

theorem patch_markers_text_fields_witness:
  "Marker_findById demo_lib (markers demo_store) ''3'' = Inr (Some demo_marker) \<and>
   req_body demo_edit ''title'' = Some [] \<and> req_body demo_edit ''comment'' = None \<and>
   req_body demo_edit ''color'' = Some ''#00ff00'' \<and>
   (\<exists>m'. fst (patch_markers demo_lib demo_store ''3'' demo_edit) = (200, MarkerBody m')
        \<and> markers (snd (patch_markers demo_lib demo_store ''3'' demo_edit)) = [m']
        \<and> m_id m' = 3 \<and> m_title m' = [] \<and> m_comment m' = ''seen'' \<and> m_color m' = ''#00ff00'')"
proof -
  have found: "Marker_findById demo_lib (markers demo_store) ''3'' = Inr (Some demo_marker)"
    by (simp add: Marker_findById_def demo_lib_def demo_digits_def demo_store_def demo_marker_def)
  have sent: "req_body demo_edit ''title'' = Some []" "req_body demo_edit ''comment'' = None"
    "req_body demo_edit ''color'' = Some ''#00ff00''"
    by (simp_all add: demo_edit_def)
  from patch_markers_text_fields [OF found, of demo_edit] obtain m' front rest where m':
    "fst (patch_markers demo_lib demo_store ''3'' demo_edit) = (200, MarkerBody m')"
    "markers demo_store = front @ demo_marker # rest"
    "markers (snd (patch_markers demo_lib demo_store ''3'' demo_edit)) = front @ m' # rest"
    "m_id m' = m_id demo_marker"
    "m_title m' = (case req_body demo_edit ''title'' of Some t \<Rightarrow> t | None \<Rightarrow> m_title demo_marker)"
    "m_comment m' = (case req_body demo_edit ''comment'' of Some c \<Rightarrow> c | None \<Rightarrow> m_comment demo_marker)"
    "m_color m' = (case req_body demo_edit ''color'' of Some c \<Rightarrow> c | None \<Rightarrow> m_color demo_marker)"
    by blast
  from m'(2) have "front = [] \<and> rest = []"
    by (simp add: demo_store_def Cons_eq_append_conv)
  with m' sent have "fst (patch_markers demo_lib demo_store ''3'' demo_edit) = (200, MarkerBody m')
        \<and> markers (snd (patch_markers demo_lib demo_store ''3'' demo_edit)) = [m']
        \<and> m_id m' = 3 \<and> m_title m' = [] \<and> m_comment m' = ''seen'' \<and> m_color m' = ''#00ff00''"
    by (simp add: demo_marker_def)
  with found sent show ?thesis by blast
qed

text \<open>
  C4. In the collection after an edit of a stored marker, the edited document stands
  where the first marker of that id stood, and every other marker is as it was and
  where it was. The photos of the edited document are the photos stored before, in
  their order, followed by the paths of the photo files uploaded, in theirs; so there
  are as many more photos as files were uploaded, and the list is the one before when
  none was. The same holds for the videos.
\<close>

theorem patch_markers_media:
  assumes "Marker_findById L (markers st) ident = Inr (Some m)"
  shows "\<exists>m' front rest. fst (patch_markers L st ident rq) = (200, MarkerBody m')
            \<and> markers st = front @ m # rest \<and> (\<forall>d\<in>set front. m_id d \<noteq> m_id m)
            \<and> markers (snd (patch_markers L st ident rq)) = front @ m' # rest
            \<and> Marker_findById L (markers (snd (patch_markers L st ident rq))) ident = Inr (Some m')
            \<and> m_id m' = m_id m
            \<and> m_photos m' = m_photos m @ (case files_photos rq of Some fs \<Rightarrow> upload_paths fs | None \<Rightarrow> [])
            \<and> length (m_photos m') = length (m_photos m) + (case files_photos rq of Some fs \<Rightarrow> length fs | None \<Rightarrow> 0)
            \<and> m_videos m' = m_videos m @ (case files_videos rq of Some fs \<Rightarrow> upload_paths fs | None \<Rightarrow> [])
            \<and> length (m_videos m') = length (m_videos m) + (case files_videos rq of Some fs \<Rightarrow> length fs | None \<Rightarrow> 0)"
proof -
  from patch_markers_found [OF assms, of rq] obtain m' front rest where m':
    "patch_markers L st ident rq =
       ((200, MarkerBody m'), io_emit ''updatedMarker'' (MarkerDoc m') (Marker_save st m'))"
    "markers st = front @ m # rest" "\<forall>d\<in>set front. m_id d \<noteq> m_id m"
    "markers (snd (patch_markers L st ident rq)) = front @ m' # rest"
    "Marker_findById L (markers (snd (patch_markers L st ident rq))) ident = Inr (Some m')"
    "m_id m' = m_id m"
    "m_photos m' = m_photos m @ (case files_photos rq of Some fs \<Rightarrow> upload_paths fs | None \<Rightarrow> [])"
    "m_videos m' = m_videos m @ (case files_videos rq of Some fs \<Rightarrow> upload_paths fs | None \<Rightarrow> [])"
    by blast
  have "length (m_photos m') = length (m_photos m) + (case files_photos rq of Some fs \<Rightarrow> length fs | None \<Rightarrow> 0)"
    "length (m_videos m') = length (m_videos m) + (case files_videos rq of Some fs \<Rightarrow> length fs | None \<Rightarrow> 0)"
    by (simp_all add: m'(7,8) upload_paths_def split: option.splits)
  with m' have "fst (patch_markers L st ident rq) = (200, MarkerBody m')
            \<and> markers st = front @ m # rest \<and> (\<forall>d\<in>set front. m_id d \<noteq> m_id m)
            \<and> markers (snd (patch_markers L st ident rq)) = front @ m' # rest
            \<and> Marker_findById L (markers (snd (patch_markers L st ident rq))) ident = Inr (Some m')
            \<and> m_id m' = m_id m
            \<and> m_photos m' = m_photos m @ (case files_photos rq of Some fs \<Rightarrow> upload_paths fs | None \<Rightarrow> [])
            \<and> length (m_photos m') = length (m_photos m) + (case files_photos rq of Some fs \<Rightarrow> length fs | None \<Rightarrow> 0)
            \<and> m_videos m' = m_videos m @ (case files_videos rq of Some fs \<Rightarrow> upload_paths fs | None \<Rightarrow> [])
            \<and> length (m_videos m') = length (m_videos m) + (case files_videos rq of Some fs \<Rightarrow> length fs | None \<Rightarrow> 0)"
    by simp
  then show ?thesis by (intro exI)
qed

text \<open>
  Two photos uploaded to the one marker of the store, which has three: the collection
  after the edit is the one edited marker, with five photos, the first three as before;
  no video uploaded: the videos as before.
\<close>

theorem patch_markers_media_witness:
  "Marker_findById demo_lib (markers demo_store) ''3'' = Inr (Some demo_marker) \<and>
   (\<exists>m'. fst (patch_markers demo_lib demo_store ''3'' demo_edit) = (200, MarkerBody m')
        \<and> markers (snd (patch_markers demo_lib demo_store ''3'' demo_edit)) = [m']
        \<and> m_id m' = 3
        \<and> m_photos m' = [''/uploads/1-a.jpg'', ''/uploads/2-b.jpg'', ''/uploads/3-c.jpg'',
                          ''/uploads/8-d.jpg'', ''/uploads/9-e.jpg'']
        \<and> length (m_photos m') = 5
        \<and> m_videos m' = [] \<and> length (m_videos m') = 0)"
proof -
  have found: "Marker_findById demo_lib (markers demo_store) ''3'' = Inr (Some demo_marker)"
    by (simp add: Marker_findById_def demo_lib_def demo_digits_def demo_store_def demo_marker_def)
  from patch_markers_media [OF found, of demo_edit] obtain m' front rest where m':
    "fst (patch_markers demo_lib demo_store ''3'' demo_edit) = (200, MarkerBody m')"
    "markers demo_store = front @ demo_marker # rest"
    "markers (snd (patch_markers demo_lib demo_store ''3'' demo_edit)) = front @ m' # rest"
    "m_id m' = m_id demo_marker"
    "m_photos m' = m_photos demo_marker @
       (case files_photos demo_edit of Some fs \<Rightarrow> upload_paths fs | None \<Rightarrow> [])"
    "m_videos m' = m_videos demo_marker @
       (case files_videos demo_edit of Some fs \<Rightarrow> upload_paths fs | None \<Rightarrow> [])"
    by blast
  from m'(2) have "front = [] \<and> rest = []"
    by (simp add: demo_store_def Cons_eq_append_conv)
  with m' have "fst (patch_markers demo_lib demo_store ''3'' demo_edit) = (200, MarkerBody m')
        \<and> markers (snd (patch_markers demo_lib demo_store ''3'' demo_edit)) = [m']
        \<and> m_id m' = 3
        \<and> m_photos m' = [''/uploads/1-a.jpg'', ''/uploads/2-b.jpg'', ''/uploads/3-c.jpg'',
                          ''/uploads/8-d.jpg'', ''/uploads/9-e.jpg'']
        \<and> length (m_photos m') = 5
        \<and> m_videos m' = [] \<and> length (m_videos m') = 0"
    by (simp add: demo_marker_def demo_edit_def upload_paths_def)
  with found show ?thesis by blast
qed

text \<open>
  C5, as stated, fails: an id that the store cannot cast to a document id resolves to
  no stored marker, and the request is answered 500, not 404.
\<close>

theorem patch_markers_unresolved_counterexample:
  "Marker_findById demo_lib (markers demo_store) ''abc'' = Inl (CastError ''_id'') \<and>
   patch_markers demo_lib demo_store ''abc'' demo_edit
     = ((500, ErrMessage (CastError ''_id'')), demo_store)"
  by (simp add: patch_markers_def Marker_findById_def demo_lib_def demo_digits_def)

text \<open>
  C5, amended. An edit whose id is a document id that no stored marker has is answered
  404 with the message \<^verbatim>\<open>Marqueur non trouve\<close> (accented in the source); an edit
  whose id the store cannot cast to a document id is answered 500. In both cases the
  state is the one before the request: no marker is modified and nothing is broadcast.
\<close>

theorem patch_markers_unresolved:
  "(\<forall>i. castObjectId L ident = Some i \<and> i \<notin> set (map m_id (markers st)) \<longrightarrow>
      patch_markers L st ident rq = ((404, Message (''Marqueur non trouv'' @ [CHR 0xE9])), st)) \<and>
   (castObjectId L ident = None \<longrightarrow>
      patch_markers L st ident rq = ((500, ErrMessage (CastError ''_id'')), st))"
  by (simp add: patch_markers_def Marker_findById_def find_id_None)

text \<open>
  An id that no marker has, and a text that is no id.
\<close>

theorem patch_markers_unresolved_witness:
  "castObjectId demo_lib ''4'' = Some 4 \<and> 4 \<notin> set (map m_id (markers demo_store)) \<and>
   patch_markers demo_lib demo_store ''4'' demo_edit
     = ((404, Message (''Marqueur non trouv'' @ [CHR 0xE9])), demo_store) \<and>
   castObjectId demo_lib ''xyz'' = None \<and>
   patch_markers demo_lib demo_store ''xyz'' demo_edit
     = ((500, ErrMessage (CastError ''_id'')), demo_store)"
  using patch_markers_unresolved [of demo_lib "''4''" demo_store demo_edit]
        patch_markers_unresolved [of demo_lib "''xyz''" demo_store demo_edit]
  by (simp add: demo_lib_def demo_digits_def demo_store_def demo_marker_def)

text \<open>
  C6, as stated, fails: a creation whose latitude does not parse to a number is answered
  500; nothing is created and nothing is broadcast.
\<close>

theorem post_markers_counterexample:
  "parseFloat demo_lib (req_body demo_create_bad ''latitude'') = None \<and>
   post_markers demo_lib demo_store demo_create_bad
     = ((500, ErrMessage (ValidationError [''latitude''])), demo_store)"
  by (simp add: post_markers_def Marker_create_def parseFloat_def or_null_def demo_lib_def
        demo_digits_def demo_create_bad_def)

text \<open>
  C6, amended. A creation whose latitude and longitude parse to numbers, and whose
  creator, when one is given, is a document id, is answered 201 with the created
  document: its latitude and longitude are the numbers parsed, its id is the one the
  store assigns, and it is the last document of the collection. The same document is
  delivered under \<^verbatim>\<open>newMarker\<close> to every connected subscriber, after the events it
  had received.
\<close>

theorem post_markers_created:
  assumes "parseFloat L (req_body rq ''latitude'') = Some lat"
    and "parseFloat L (req_body rq ''longitude'') = Some lng"
    and "case or_null (req_body rq ''userId'') of None \<Rightarrow> True | Some s \<Rightarrow> castObjectId L s \<noteq> None"
  shows "\<exists>doc. fst (post_markers L st rq) = (201, MarkerBody doc)
            \<and> m_latitude doc = lat \<and> m_longitude doc = lng \<and> m_id doc = next_oid st
            \<and> m_title doc = (case req_body rq ''title'' of None \<Rightarrow> [] | Some t \<Rightarrow> t)
            \<and> markers (snd (post_markers L st rq)) = markers st @ [doc]
            \<and> sockets (snd (post_markers L st rq)) =
                map (\<lambda>s. if s_connected s
                         then s\<lparr>s_received := s_received s @ [(''newMarker'', MarkerDoc doc)]\<rparr>
                         else s) (sockets st)"
  using assms
  by (auto simp: post_markers_def Marker_create_def Let_def io_emit_def socket_emit_def
        split: option.splits)

text \<open>
  The creation of a marker at 48, 2 on the store with one subscriber.
\<close>

theorem post_markers_created_witness:
  "parseFloat demo_lib (req_body demo_create ''latitude'') = Some 48 \<and>
   parseFloat demo_lib (req_body demo_create ''longitude'') = Some 2 \<and>
   or_null (req_body demo_create ''userId'') = None \<and>
   (\<exists>doc. fst (post_markers demo_lib demo_store demo_create) = (201, MarkerBody doc)
        \<and> m_latitude doc = 48 \<and> m_longitude doc = 2 \<and> m_id doc = 4
        \<and> m_title doc = ''Eiffel''
        \<and> markers (snd (post_markers demo_lib demo_store demo_create)) = [demo_marker, doc]
        \<and> map s_received (sockets (snd (post_markers demo_lib demo_store demo_create)))
            = [[(''newMarker'', MarkerDoc doc)]])"
proof -
  have lat: "parseFloat demo_lib (req_body demo_create ''latitude'') = Some 48"
    and lng: "parseFloat demo_lib (req_body demo_create ''longitude'') = Some 2"
    and creator: "or_null (req_body demo_create ''userId'') = None"
    by (simp_all add: parseFloat_def or_null_def demo_lib_def demo_digits_def demo_create_def)
  have "case or_null (req_body demo_create ''userId'') of None \<Rightarrow> True
        | Some s \<Rightarrow> castObjectId demo_lib s \<noteq> None"
    by (simp add: creator)
  from post_markers_created [OF lat lng this, of demo_store] lat lng creator show ?thesis
    by (auto simp: demo_store_def demo_socket_def demo_create_def)
qed

section \<open>Position updates\<close>

lemma typeof_number: "typeof v = ''number'' \<longleftrightarrow> (\<exists>x. v = JNum x)"
  by (cases v) auto

text \<open>
  C7. A position message whose latitude or whose longitude is not a number is dropped:
  the state after it is the state before it, so no user is changed, nothing is
  broadcast, and nothing is sent to the sender.
\<close>

theorem updatePosition_not_numeric:
  "typeof (p_latitude msg) \<noteq> ''number'' \<or> typeof (p_longitude msg) \<noteq> ''number''
     \<Longrightarrow> updatePosition L st msg = st"
  by (simp add: updatePosition_def)

text \<open>
  A message whose latitude is the text \<^verbatim>\<open>abc\<close>.
\<close>

theorem updatePosition_not_numeric_witness:
  "typeof (p_latitude demo_move_text) = ''string'' \<and>
   updatePosition demo_lib demo_store demo_move_text = demo_store"
  using updatePosition_not_numeric [of demo_move_text demo_lib demo_store]
  by (simp add: demo_move_text_def)

text \<open>
  C8. A position message of two numbers: when its user id is the id of a stored user,
  that user's latitude and longitude become the two numbers, and the user's id and name
  with the two numbers are delivered under \<^verbatim>\<open>positionsUpdate\<close> to every connected
  subscriber, the sender among them; when the id is not a document id, or is the id of
  no stored user, the state is left as it was: nothing is broadcast and nothing is
  sent to the sender.
\<close>

theorem updatePosition_numeric:
  assumes "typeof (p_latitude msg) = ''number''" and "typeof (p_longitude msg) = ''number''"
  shows "\<exists>lat lng. p_latitude msg = JNum lat \<and> p_longitude msg = JNum lng \<and>
           (\<forall>i u. castObjectId L (p_userId msg) = Some i \<and>
                  find (\<lambda>d. u_id d = i) (users st) = Some u \<longrightarrow>
              users (updatePosition L st msg)
                = replace_first (\<lambda>d. u_id d = i) (u\<lparr>u_latitude := lat, u_longitude := lng\<rparr>) (users st) \<and>
              find (\<lambda>d. u_id d = i) (users (updatePosition L st msg))
                = Some (u\<lparr>u_latitude := lat, u_longitude := lng\<rparr>) \<and>
              sockets (updatePosition L st msg)
                = map (\<lambda>s. if s_connected s
                           then s\<lparr>s_received := s_received s @
                                   [(''positionsUpdate'', Position i (u_name u) lat lng)]\<rparr>
                           else s) (sockets st) \<and>
              markers (updatePosition L st msg) = markers st) \<and>
           (castObjectId L (p_userId msg) = None \<longrightarrow> updatePosition L st msg = st) \<and>
           (\<forall>i. castObjectId L (p_userId msg) = Some i \<and>
                find (\<lambda>d. u_id d = i) (users st) = None \<longrightarrow> updatePosition L st msg = st)"
proof -
  let ?found = "\<lambda>lat lng. \<forall>i u. castObjectId L (p_userId msg) = Some i \<and>
                  find (\<lambda>d. u_id d = i) (users st) = Some u \<longrightarrow>
              users (updatePosition L st msg)
                = replace_first (\<lambda>d. u_id d = i) (u\<lparr>u_latitude := lat, u_longitude := lng\<rparr>) (users st) \<and>
              find (\<lambda>d. u_id d = i) (users (updatePosition L st msg))
                = Some (u\<lparr>u_latitude := lat, u_longitude := lng\<rparr>) \<and>
              sockets (updatePosition L st msg)
                = map (\<lambda>s. if s_connected s
                           then s\<lparr>s_received := s_received s @
                                   [(''positionsUpdate'', Position i (u_name u) lat lng)]\<rparr>
                           else s) (sockets st) \<and>
              markers (updatePosition L st msg) = markers st"
  let ?cast = "castObjectId L (p_userId msg) = None \<longrightarrow> updatePosition L st msg = st"
  let ?nobody = "\<forall>i. castObjectId L (p_userId msg) = Some i \<and>
                find (\<lambda>d. u_id d = i) (users st) = None \<longrightarrow> updatePosition L st msg = st"
  from assms obtain lat lng where n: "p_latitude msg = JNum lat" "p_longitude msg = JNum lng"
    by (auto simp: typeof_number)
  have "?found lat lng"
  proof (intro allI impI, elim conjE)
    fix i u
    assume c: "castObjectId L (p_userId msg) = Some i"
      and f: "find (\<lambda>d. u_id d = i) (users st) = Some u"
    from f have ui: "u_id u = i" by (rule find_Some_holds)
    have upd: "updatePosition L st msg =
            io_emit ''positionsUpdate'' (Position i (u_name u) lat lng)
              (st\<lparr>users := replace_first (\<lambda>d. u_id d = i)
                               (u\<lparr>u_latitude := lat, u_longitude := lng\<rparr>) (users st)\<rparr>)"
      by (simp add: updatePosition_def User_findByIdAndUpdate_def n c f ui Let_def)
    have "find (\<lambda>d. u_id d = i)
            (replace_first (\<lambda>d. u_id d = i) (u\<lparr>u_latitude := lat, u_longitude := lng\<rparr>) (users st))
          = Some (u\<lparr>u_latitude := lat, u_longitude := lng\<rparr>)"
      using f ui by (intro find_replace_first) auto
    then show "users (updatePosition L st msg)
                = replace_first (\<lambda>d. u_id d = i) (u\<lparr>u_latitude := lat, u_longitude := lng\<rparr>) (users st) \<and>
              find (\<lambda>d. u_id d = i) (users (updatePosition L st msg))
                = Some (u\<lparr>u_latitude := lat, u_longitude := lng\<rparr>) \<and>
              sockets (updatePosition L st msg)
                = map (\<lambda>s. if s_connected s
                           then s\<lparr>s_received := s_received s @
                                   [(''positionsUpdate'', Position i (u_name u) lat lng)]\<rparr>
                           else s) (sockets st) \<and>
              markers (updatePosition L st msg) = markers st"
      by (simp add: upd io_emit_def socket_emit_def)
  qed
  moreover have ?cast
    by (simp add: updatePosition_def User_findByIdAndUpdate_def n)
  moreover have ?nobody
    by (simp add: updatePosition_def User_findByIdAndUpdate_def n)
  ultimately have "p_latitude msg = JNum lat \<and> p_longitude msg = JNum lng \<and>
      ?found lat lng \<and> ?cast \<and> ?nobody"
    using n by (intro conjI)
  then show ?thesis by (intro exI)
qed

text \<open>
  The stored user moves to 48, 2; a message under an id nobody has changes nothing.
\<close>

theorem updatePosition_numeric_witness:
  "typeof (p_latitude demo_move) = ''number'' \<and> typeof (p_longitude demo_move) = ''number'' \<and>
   castObjectId demo_lib (p_userId demo_move) = Some 1 \<and>
   find (\<lambda>d. u_id d = 1) (users demo_store) = Some demo_user \<and>
   users (updatePosition demo_lib demo_store demo_move)
     = [demo_user\<lparr>u_latitude := 48, u_longitude := 2\<rparr>] \<and>
   map s_received (sockets (updatePosition demo_lib demo_store demo_move))
     = [[(''positionsUpdate'', Position 1 ''Ada'' 48 2)]] \<and>
   castObjectId demo_lib (p_userId (demo_move\<lparr>p_userId := ''9''\<rparr>)) = Some 9 \<and>
   find (\<lambda>d. u_id d = 9) (users demo_store) = None \<and>
   updatePosition demo_lib demo_store (demo_move\<lparr>p_userId := ''9''\<rparr>) = demo_store"
proof -
  have t: "typeof (p_latitude demo_move) = ''number''" "typeof (p_longitude demo_move) = ''number''"
    by (simp_all add: demo_move_def)
  have t9: "typeof (p_latitude (demo_move\<lparr>p_userId := ''9''\<rparr>)) = ''number''"
    "typeof (p_longitude (demo_move\<lparr>p_userId := ''9''\<rparr>)) = ''number''"
    by (simp_all add: demo_move_def)
  have c: "castObjectId demo_lib (p_userId demo_move) = Some 1"
    "castObjectId demo_lib (p_userId (demo_move\<lparr>p_userId := ''9''\<rparr>)) = Some 9"
    by (simp_all add: demo_move_def demo_lib_def demo_digits_def)
  have f: "find (\<lambda>d. u_id d = 1) (users demo_store) = Some demo_user"
    "find (\<lambda>d. u_id d = 9) (users demo_store) = None"
    by (simp_all add: demo_store_def demo_user_def)
  have p: "p_latitude demo_move = JNum 48" "p_longitude demo_move = JNum 2"
    by (simp_all add: demo_move_def)
  from updatePosition_numeric [OF t, of demo_lib demo_store]
       updatePosition_numeric [OF t9, of demo_lib demo_store] t c f p
  show ?thesis
    by (auto simp: demo_store_def demo_socket_def demo_user_def)
qed

text \<open>The two ways a position message ends.\<close>

lemma updatePosition_cases:
  "updatePosition L st msg = st \<or>
   (\<exists>i u lat lng. p_latitude msg = JNum lat \<and> p_longitude msg = JNum lng \<and>
      castObjectId L (p_userId msg) = Some i \<and> find (\<lambda>d. u_id d = i) (users st) = Some u \<and>
      updatePosition L st msg =
        io_emit ''positionsUpdate'' (Position i (u_name u) lat lng)
          (st\<lparr>users := replace_first (\<lambda>d. u_id d = i)
                           (u\<lparr>u_latitude := lat, u_longitude := lng\<rparr>) (users st)\<rparr>))"
proof (cases "typeof (p_latitude msg) = ''number'' \<and> typeof (p_longitude msg) = ''number''")
  case False
  then show ?thesis by (auto simp: updatePosition_def)
next
  case True
  then obtain lat lng where n: "p_latitude msg = JNum lat" "p_longitude msg = JNum lng"
    by (auto simp: typeof_number)
  show ?thesis
  proof (cases "castObjectId L (p_userId msg)")
    case None
    then show ?thesis by (simp add: updatePosition_def User_findByIdAndUpdate_def n)
  next
    case (Some i)
    show ?thesis
    proof (cases "find (\<lambda>d. u_id d = i) (users st)")
      case None
      with Some show ?thesis by (simp add: updatePosition_def User_findByIdAndUpdate_def n)
    next
      case found: (Some u)
      from found have "u_id u = i" by (rule find_Some_holds)
      with Some found have "updatePosition L st msg =
          io_emit ''positionsUpdate'' (Position i (u_name u) lat lng)
            (st\<lparr>users := replace_first (\<lambda>d. u_id d = i)
                             (u\<lparr>u_latitude := lat, u_longitude := lng\<rparr>) (users st)\<rparr>)"
        by (simp add: updatePosition_def User_findByIdAndUpdate_def n Let_def)
      with n Some found show ?thesis by blast
    qed
  qed
qed

section \<open>Connections\<close>

text \<open>What the handlers do to the subscribers: nothing, or one broadcast.\<close>

lemma socket_emit_fields:
  "s_id (socket_emit s ev p) = s_id s"
  "s_connected (socket_emit s ev p) = s_connected s"
  "s_fetch (socket_emit s ev p) = s_fetch s"
  by (simp_all add: socket_emit_def)

lemma socket_emit_other_event:
  "ev \<noteq> ''allMarkers'' \<Longrightarrow>
     allMarkers_events (s_received (socket_emit s ev p)) = allMarkers_events (s_received s)"
  by (simp add: socket_emit_def allMarkers_events_def)

lemma sockets_User_create:
  "User_create st n e p = Inr (u, st') \<Longrightarrow> sockets st' = sockets st"
  by (auto simp: User_create_def Let_def split: list.splits option.splits if_splits)

lemma sockets_post_register: "sockets (snd (post_register L st b)) = sockets st"
  by (auto simp: post_register_def Let_def dest: sockets_User_create
      split: option.splits sum.splits prod.splits)

lemma sockets_post_login: "sockets (snd (post_login L st b)) = sockets st"
  by (simp add: post_login_def Let_def split: option.splits sum.splits)

lemma sockets_Marker_create:
  "Marker_create L st la lo t c co ph vi cb = Inr (m, st') \<Longrightarrow> sockets st' = sockets st"
  by (auto simp: Marker_create_def Let_def split: list.splits option.splits if_splits)

lemma sockets_post_markers:
  "sockets (snd (post_markers L st rq)) = sockets st \<or>
   (\<exists>p. sockets (snd (post_markers L st rq)) = map (\<lambda>s. socket_emit s ''newMarker'' p) (sockets st))"
proof -
  define c where "c = Marker_create L st (parseFloat L (req_body rq ''latitude''))
      (parseFloat L (req_body rq ''longitude'')) (req_body rq ''title'') (req_body rq ''comment'')
      (req_body rq ''color'')
      (case files_photos rq of Some fs \<Rightarrow> upload_paths fs | None \<Rightarrow> [])
      (case files_videos rq of Some fs \<Rightarrow> upload_paths fs | None \<Rightarrow> [])
      (or_null (req_body rq ''userId''))"
  have run: "post_markers L st rq =
      (case c of
         Inl err \<Rightarrow> ((500, ErrMessage err), st)
       | Inr (m, st') \<Rightarrow> ((201, MarkerBody m), io_emit ''newMarker'' (MarkerDoc m) st'))"
    by (simp add: post_markers_def Let_def c_def)
  show ?thesis
  proof (cases c)
    case (Inl err)
    then show ?thesis by (simp add: run)
  next
    case (Inr created)
    then obtain m st' where c: "c = Inr (m, st')" by (cases created) auto
    then have "sockets st' = sockets st"
      unfolding c_def by (rule sockets_Marker_create)
    then have "sockets (snd (post_markers L st rq))
                 = map (\<lambda>s. socket_emit s ''newMarker'' (MarkerDoc m)) (sockets st)"
      by (simp add: run c io_emit_def)
    then show ?thesis by blast
  qed
qed

lemma patch_markers_cases:
  "patch_markers L st ident rq = ((404, Message (''Marqueur non trouv'' @ [CHR 0xE9])), st) \<or>
   (\<exists>err. patch_markers L st ident rq = ((500, ErrMessage err), st)) \<or>
   (\<exists>m'. patch_markers L st ident rq =
           ((200, MarkerBody m'), io_emit ''updatedMarker'' (MarkerDoc m') (Marker_save st m')))"
proof (cases "Marker_findById L (markers st) ident")
  case (Inl err)
  then show ?thesis by (simp add: patch_markers_def)
next
  case (Inr found)
  show ?thesis
  proof (cases found)
    case None
    with Inr show ?thesis by (simp add: patch_markers_def)
  next
    case (Some m)
    with Inr have "Marker_findById L (markers st) ident = Inr (Some m)" by simp
    from patch_markers_found [OF this, of rq] show ?thesis by blast
  qed
qed

lemma sockets_patch_markers:
  "sockets (snd (patch_markers L st ident rq)) = sockets st \<or>
   (\<exists>p. sockets (snd (patch_markers L st ident rq))
          = map (\<lambda>s. socket_emit s ''updatedMarker'' p) (sockets st))"
proof -
  from patch_markers_cases [of L st ident rq] consider
      "snd (patch_markers L st ident rq) = st"
    | m' where "snd (patch_markers L st ident rq)
                  = io_emit ''updatedMarker'' (MarkerDoc m') (Marker_save st m')"
    by fastforce
  then show ?thesis
  proof cases
    case 1
    then show ?thesis by simp
  next
    case 2
    then have "sockets (snd (patch_markers L st ident rq))
                 = map (\<lambda>s. socket_emit s ''updatedMarker'' (MarkerDoc m')) (sockets st)"
      by (simp add: io_emit_def Marker_save_def)
    then show ?thesis by blast
  qed
qed

lemma sockets_updatePosition:
  "sockets (updatePosition L st msg) = sockets st \<or>
   (\<exists>p. sockets (updatePosition L st msg)
          = map (\<lambda>s. socket_emit s ''positionsUpdate'' p) (sockets st))"
proof -
  from updatePosition_cases [of L st msg] consider
      "updatePosition L st msg = st"
    | p st' where "updatePosition L st msg = io_emit ''positionsUpdate'' p st'"
                  "sockets st' = sockets st"
    by fastforce
  then show ?thesis
  proof cases
    case 1
    then show ?thesis by simp
  next
    case 2
    then have "sockets (updatePosition L st msg)
                 = map (\<lambda>s. socket_emit s ''positionsUpdate'' p) (sockets st)"
      by (simp add: io_emit_def)
    then show ?thesis by blast
  qed
qed

text \<open>What one event of the service does to the subscribers.\<close>

lemma step_sockets:
  assumes "a \<noteq> Connection sid"
  shows "\<exists>f extra. sockets (step L st a) = map f (sockets st) @ extra
           \<and> (\<forall>s\<in>set extra. s_id s \<noteq> sid)
           \<and> (\<forall>s. s_id (f s) = s_id s)
           \<and> (\<forall>s. s_id s = sid \<longrightarrow>
                 (a = AllMarkersQueried sid \<and> s_fetch s = Querying) \<or>
                 (a = AllMarkersFetched sid \<and> (\<exists>found. s_fetch s = Found found)) \<or>
                 (s_fetch (f s) = s_fetch s
                  \<and> allMarkers_events (s_received (f s)) = allMarkers_events (s_received s)
                  \<and> (a \<noteq> Disconnect sid \<longrightarrow> s_connected (f s) = s_connected s)))"
    (is "\<exists>f extra. ?shape f extra")
proof -
  have broadcast: "\<exists>f extra. ?shape f extra"
    if "sockets (step L st a) = sockets st \<or>
        (\<exists>p. sockets (step L st a) = map (\<lambda>s. socket_emit s ev p) (sockets st))"
      and "ev \<noteq> ''allMarkers''"
    for ev
  proof -
    from that(1) show ?thesis
    proof
      assume "sockets (step L st a) = sockets st"
      then have "?shape (\<lambda>s. s) []" by simp
      then show ?thesis by blast
    next
      assume "\<exists>p. sockets (step L st a) = map (\<lambda>s. socket_emit s ev p) (sockets st)"
      then obtain p where "sockets (step L st a) = map (\<lambda>s. socket_emit s ev p) (sockets st)" ..
      then have "?shape (\<lambda>s. socket_emit s ev p) []"
        using that(2) by (simp add: socket_emit_fields socket_emit_other_event)
      then show ?thesis by blast
    qed
  qed
  show ?thesis
  proof (cases a)
    case (Connection t)
    with assms have "t \<noteq> sid" by simp
    then have "?shape (\<lambda>s. s) [\<lparr>s_id = t, s_connected = True, s_fetch = Querying, s_received = []\<rparr>]"
      by (simp add: Connection connection_def)
    then show ?thesis by blast
  next
    case (AllMarkersQueried t)
    have "?shape (\<lambda>s. if s_id s = t
                      then (case s_fetch s of
                              Querying \<Rightarrow> s\<lparr>s_fetch := Found (markers st)\<rparr>
                            | _ \<Rightarrow> s)
                      else s) []"
      by (auto simp: AllMarkersQueried Marker_find_def split: fetch.splits)
    then show ?thesis by blast
  next
    case (AllMarkersFetched t)
    have "?shape (\<lambda>s. if s_id s = t
                      then (case s_fetch s of
                              Found found \<Rightarrow>
                                (socket_emit s ''allMarkers'' (Markers found))\<lparr>s_fetch := Sent\<rparr>
                            | _ \<Rightarrow> s)
                      else s) []"
      by (auto simp: AllMarkersFetched sendAllMarkers_def socket_emit_fields split: fetch.splits)
    then show ?thesis by blast
  next
    case (Disconnect t)
    have "?shape (\<lambda>s. if s_id s = t then s\<lparr>s_connected := False\<rparr> else s) []"
      by (auto simp: Disconnect disconnect_def)
    then show ?thesis by blast
  next
    case (Register b)
    then show ?thesis
      by (intro broadcast [of "''newMarker''"]) (simp_all add: sockets_post_register)
  next
    case (Login b)
    then show ?thesis
      by (intro broadcast [of "''newMarker''"]) (simp_all add: sockets_post_login)
  next
    case (PostMarkers rq)
    then show ?thesis
      using sockets_post_markers [of L st rq]
      by (intro broadcast [of "''newMarker''"]) simp_all
  next
    case (PatchMarkers ident rq)
    then show ?thesis
      using sockets_patch_markers [of L st ident rq]
      by (intro broadcast [of "''updatedMarker''"]) simp_all
  next
    case (UpdatePosition msg)
    then show ?thesis
      using sockets_updatePosition [of L st msg]
      by (intro broadcast [of "''positionsUpdate''"]) simp_all
  qed
qed

lemma filter_id_map:
  "(\<And>s. s_id (g s) = s_id s) \<Longrightarrow>
     filter (\<lambda>s. s_id s = t) (map g xs) = map g (filter (\<lambda>s. s_id s = t) xs)"
  by (induction xs) auto

text \<open>
  The subscribers under one socket id, before and after an event of the service.
\<close>

lemma subscriber_step:
  assumes "a \<noteq> Connection sid"
  shows "\<exists>f. filter (\<lambda>s. s_id s = sid) (sockets (step L st a))
               = map f (filter (\<lambda>s. s_id s = sid) (sockets st))
           \<and> (\<forall>s. s_id s = sid \<longrightarrow>
                 (a = AllMarkersQueried sid \<and> s_fetch s = Querying) \<or>
                 (a = AllMarkersFetched sid \<and> (\<exists>found. s_fetch s = Found found)) \<or>
                 (s_fetch (f s) = s_fetch s
                  \<and> allMarkers_events (s_received (f s)) = allMarkers_events (s_received s)
                  \<and> (a \<noteq> Disconnect sid \<longrightarrow> s_connected (f s) = s_connected s)))"
proof -
  from step_sockets [OF assms, of L st] obtain f extra where
    shape: "sockets (step L st a) = map f (sockets st) @ extra"
    and extra: "\<forall>s\<in>set extra. s_id s \<noteq> sid"
    and ids: "\<forall>s. s_id (f s) = s_id s"
    and keeps: "\<forall>s. s_id s = sid \<longrightarrow>
                 (a = AllMarkersQueried sid \<and> s_fetch s = Querying) \<or>
                 (a = AllMarkersFetched sid \<and> (\<exists>found. s_fetch s = Found found)) \<or>
                 (s_fetch (f s) = s_fetch s
                  \<and> allMarkers_events (s_received (f s)) = allMarkers_events (s_received s)
                  \<and> (a \<noteq> Disconnect sid \<longrightarrow> s_connected (f s) = s_connected s))"
    by blast
  from extra have "filter (\<lambda>s. s_id s = sid) extra = []"
    by (simp add: filter_empty_conv)
  moreover from ids have "filter (\<lambda>s. s_id s = sid) (map f (sockets st))
                            = map f (filter (\<lambda>s. s_id s = sid) (sockets st))"
    by (intro filter_id_map) simp
  ultimately have "filter (\<lambda>s. s_id s = sid) (sockets (step L st a))
                     = map f (filter (\<lambda>s. s_id s = sid) (sockets st))"
    by (simp add: shape)
  with keeps show ?thesis by blast
qed

lemma run_Cons: "run L st (a # acts) = run L (step L st a) acts"
  by (simp add: run_def)

text \<open>
  While the fetch of a subscriber stands where it is and the subscriber stays connected,
  it receives no \<^verbatim>\<open>allMarkers\<close>.
\<close>

lemma run_pending:
  assumes "set acts \<inter> {Connection sid, AllMarkersQueried sid, AllMarkersFetched sid,
                         Disconnect sid} = {}"
    and "filter (\<lambda>s. s_id s = sid) (sockets st) = [s]"
    and "s_connected s" and "allMarkers_events (s_received s) = []"
  shows "\<exists>s'. filter (\<lambda>s. s_id s = sid) (sockets (run L st acts)) = [s']
            \<and> s_connected s' \<and> s_fetch s' = s_fetch s
            \<and> allMarkers_events (s_received s') = []"
  using assms
proof (induction acts arbitrary: st s)
  case Nil
  then show ?case by (simp add: run_def)
next
  case (Cons a acts)
  then have a: "a \<noteq> Connection sid" "a \<noteq> AllMarkersQueried sid" "a \<noteq> AllMarkersFetched sid"
    "a \<noteq> Disconnect sid"
    by auto
  from subscriber_step [OF a(1), of L st] obtain f where
    f: "filter (\<lambda>s. s_id s = sid) (sockets (step L st a))
          = map f (filter (\<lambda>s. s_id s = sid) (sockets st))"
    and keeps: "\<forall>s. s_id s = sid \<longrightarrow>
                 (a = AllMarkersQueried sid \<and> s_fetch s = Querying) \<or>
                 (a = AllMarkersFetched sid \<and> (\<exists>found. s_fetch s = Found found)) \<or>
                 (s_fetch (f s) = s_fetch s
                  \<and> allMarkers_events (s_received (f s)) = allMarkers_events (s_received s)
                  \<and> (a \<noteq> Disconnect sid \<longrightarrow> s_connected (f s) = s_connected s))"
    by blast
  have "s \<in> set (filter (\<lambda>s. s_id s = sid) (sockets st))"
    by (simp add: Cons.prems(2))
  then have "s_id s = sid" by simp
  with keeps a have kept: "s_fetch (f s) = s_fetch s"
    "allMarkers_events (s_received (f s)) = allMarkers_events (s_received s)"
    "s_connected (f s) = s_connected s"
    by blast+
  have rest: "set acts \<inter> {Connection sid, AllMarkersQueried sid, AllMarkersFetched sid,
                           Disconnect sid} = {}"
    using Cons.prems(1) by auto
  have now: "filter (\<lambda>s. s_id s = sid) (sockets (step L st a)) = [f s]"
    by (simp add: f Cons.prems(2))
  have "\<exists>s'. filter (\<lambda>s. s_id s = sid) (sockets (run L (step L st a) acts)) = [s']
            \<and> s_connected s' \<and> s_fetch s' = s_fetch (f s)
            \<and> allMarkers_events (s_received s') = []"
    using rest now by (rule Cons.IH) (simp_all add: kept Cons.prems)
  then show ?case
    by (simp add: run_Cons kept)
qed

text \<open>
  Once the markers have been sent to a subscriber, it receives no further
  \<^verbatim>\<open>allMarkers\<close>.
\<close>

lemma run_settled:
  assumes "Connection sid \<notin> set acts"
    and "filter (\<lambda>s. s_id s = sid) (sockets st) = [s]" and "s_fetch s = Sent"
  shows "\<exists>s'. filter (\<lambda>s. s_id s = sid) (sockets (run L st acts)) = [s']
            \<and> s_fetch s' = Sent
            \<and> allMarkers_events (s_received s') = allMarkers_events (s_received s)"
  using assms
proof (induction acts arbitrary: st s)
  case Nil
  then show ?case by (simp add: run_def)
next
  case (Cons a acts)
  then have a: "a \<noteq> Connection sid" by auto
  from subscriber_step [OF a, of L st] obtain f where
    f: "filter (\<lambda>s. s_id s = sid) (sockets (step L st a))
          = map f (filter (\<lambda>s. s_id s = sid) (sockets st))"
    and keeps: "\<forall>s. s_id s = sid \<longrightarrow>
                 (a = AllMarkersQueried sid \<and> s_fetch s = Querying) \<or>
                 (a = AllMarkersFetched sid \<and> (\<exists>found. s_fetch s = Found found)) \<or>
                 (s_fetch (f s) = s_fetch s
                  \<and> allMarkers_events (s_received (f s)) = allMarkers_events (s_received s)
                  \<and> (a \<noteq> Disconnect sid \<longrightarrow> s_connected (f s) = s_connected s))"
    by blast
  have "s \<in> set (filter (\<lambda>s. s_id s = sid) (sockets st))"
    by (simp add: Cons.prems(2))
  then have "s_id s = sid" by simp
  with keeps Cons.prems(3) have kept: "s_fetch (f s) = Sent"
    "allMarkers_events (s_received (f s)) = allMarkers_events (s_received s)"
    by auto
  have now: "filter (\<lambda>s. s_id s = sid) (sockets (step L st a)) = [f s]"
    by (simp add: f Cons.prems(2))
  from Cons.prems have rest: "Connection sid \<notin> set acts" by auto
  have "\<exists>s'. filter (\<lambda>s. s_id s = sid) (sockets (run L (step L st a) acts)) = [s']
            \<and> s_fetch s' = Sent
            \<and> allMarkers_events (s_received s') = allMarkers_events (s_received (f s))"
    using rest now kept(1) by (rule Cons.IH)
  then show ?case
    by (simp add: run_Cons kept(2))
qed

lemma connection_subscriber:
  assumes "sid \<notin> set (map s_id (sockets st))"
  shows "filter (\<lambda>s. s_id s = sid) (sockets (connection st sid))
           = [\<lparr>s_id = sid, s_connected = True, s_fetch = Querying, s_received = []\<rparr>]"
proof -
  from assms have "filter (\<lambda>s. s_id s = sid) (sockets st) = []"
    by (auto simp: filter_empty_conv)
  then show ?thesis by (simp add: connection_def)
qed

lemma Marker_find_subscriber:
  assumes "filter (\<lambda>s. s_id s = sid) (sockets st) = [s]" and "s_fetch s = Querying"
  shows "filter (\<lambda>s. s_id s = sid) (sockets (Marker_find st sid))
           = [s\<lparr>s_fetch := Found (markers st)\<rparr>]"
proof -
  let ?g = "\<lambda>s. if s_id s = sid
                 then (case s_fetch s of
                         Querying \<Rightarrow> s\<lparr>s_fetch := Found (markers st)\<rparr>
                       | _ \<Rightarrow> s)
                 else s"
  have "s \<in> set (filter (\<lambda>s. s_id s = sid) (sockets st))"
    by (simp add: assms(1))
  then have sid: "s_id s = sid" by simp
  have "filter (\<lambda>s. s_id s = sid) (map ?g (sockets st))
          = map ?g (filter (\<lambda>s. s_id s = sid) (sockets st))"
    by (rule filter_id_map) (simp split: fetch.splits)
  then show ?thesis
    by (simp add: Marker_find_def assms sid)
qed

lemma received_Marker_find: "received (Marker_find st sid) t = received st t"
proof -
  let ?g = "\<lambda>s. if s_id s = sid
                 then (case s_fetch s of
                         Querying \<Rightarrow> s\<lparr>s_fetch := Found (markers st)\<rparr>
                       | _ \<Rightarrow> s)
                 else s"
  have sock: "sockets (Marker_find st sid) = map ?g (sockets st)"
    by (simp add: Marker_find_def)
  have sub: "filter (\<lambda>s. s_id s = t) (map ?g (sockets st))
               = map ?g (filter (\<lambda>s. s_id s = t) (sockets st))"
    by (rule filter_id_map) (simp split: fetch.splits)
  have same: "map s_received (map ?g xs) = map s_received xs" for xs
    by (induction xs) (simp_all split: fetch.splits)
  show ?thesis
    by (simp only: received_def sock sub same)
qed

lemma markers_Marker_find: "markers (Marker_find st sid) = markers st"
  by (simp add: Marker_find_def)

lemma sendAllMarkers_subscriber:
  assumes "filter (\<lambda>s. s_id s = sid) (sockets st) = [s]" and "s_connected s"
    and "s_fetch s = Found found"
  shows "filter (\<lambda>s. s_id s = sid) (sockets (sendAllMarkers st sid))
           = [s\<lparr>s_received := s_received s @ [(''allMarkers'', Markers found)],
                s_fetch := Sent\<rparr>]"
proof -
  let ?g = "\<lambda>s. if s_id s = sid
                 then (case s_fetch s of
                         Found found \<Rightarrow>
                           (socket_emit s ''allMarkers'' (Markers found))\<lparr>s_fetch := Sent\<rparr>
                       | _ \<Rightarrow> s)
                 else s"
  have "s \<in> set (filter (\<lambda>s. s_id s = sid) (sockets st))"
    by (simp add: assms(1))
  then have sid: "s_id s = sid" by simp
  have "filter (\<lambda>s. s_id s = sid) (map ?g (sockets st))
          = map ?g (filter (\<lambda>s. s_id s = sid) (sockets st))"
    by (rule filter_id_map) (simp add: socket_emit_fields split: fetch.splits)
  then show ?thesis
    by (simp add: sendAllMarkers_def assms sid socket_emit_def)
qed

lemma sendAllMarkers_others:
  assumes "t \<noteq> sid"
  shows "filter (\<lambda>s. s_id s = t) (sockets (sendAllMarkers st sid))
           = filter (\<lambda>s. s_id s = t) (sockets st)"
proof -
  let ?g = "\<lambda>s. if s_id s = sid
                 then (case s_fetch s of
                         Found found \<Rightarrow>
                           (socket_emit s ''allMarkers'' (Markers found))\<lparr>s_fetch := Sent\<rparr>
                       | _ \<Rightarrow> s)
                 else s"
  have "filter (\<lambda>s. s_id s = t) (map ?g (sockets st))
          = map ?g (filter (\<lambda>s. s_id s = t) (sockets st))"
    by (rule filter_id_map) (simp add: socket_emit_fields split: fetch.splits)
  also have "\<dots> = filter (\<lambda>s. s_id s = t) (sockets st)"
    using assms by (intro map_idI) auto
  finally show ?thesis
    by (simp add: sendAllMarkers_def)
qed

text \<open>
  C9, amended. A subscriber connects under a socket id not in use, and stays connected
  while other events of the service take place, before the store runs the query of its
  marker fetch and between the query and the completion of the fetch. When the fetch
  completes, one \<^verbatim>\<open>allMarkers\<close> event is delivered to it, holding every marker that
  was in the store when the store ran the query. It comes after the events the
  subscriber has received since the connection (none of which is an
  \<^verbatim>\<open>allMarkers\<close>), so it is the first event exactly when nothing was broadcast in
  between; the query delivers nothing to anybody, and the completion nothing to the
  other subscribers; and whatever happens later, short of a new connection under the
  same id, this stays the only \<^verbatim>\<open>allMarkers\<close> event the subscriber has received.
\<close>

theorem connection_allMarkers:
  assumes "sid \<notin> set (map s_id (sockets st))"
    and "set before \<inter> {Connection sid, AllMarkersQueried sid, AllMarkersFetched sid,
                        Disconnect sid} = {}"
    and "set between \<inter> {Connection sid, AllMarkersQueried sid, AllMarkersFetched sid,
                         Disconnect sid} = {}"
    and "Connection sid \<notin> set later"
  shows "received (sendAllMarkers
             (run L (Marker_find (run L (connection st sid) before) sid) between) sid) sid
           = received (run L (Marker_find (run L (connection st sid) before) sid) between) sid @
             [(''allMarkers'', Markers (markers (run L (connection st sid) before)))]
       \<and> allMarkers_events
           (received (run L (Marker_find (run L (connection st sid) before) sid) between) sid) = []
       \<and> (\<forall>t. received (Marker_find (run L (connection st sid) before) sid) t
               = received (run L (connection st sid) before) t)
       \<and> (\<forall>t. t \<noteq> sid \<longrightarrow>
             received (sendAllMarkers
                 (run L (Marker_find (run L (connection st sid) before) sid) between) sid) t
               = received (run L (Marker_find (run L (connection st sid) before) sid) between) t)
       \<and> allMarkers_events
           (received (run L (sendAllMarkers
                 (run L (Marker_find (run L (connection st sid) before) sid) between) sid)
               later) sid)
           = [(''allMarkers'', Markers (markers (run L (connection st sid) before)))]"
proof -
  define st1 where "st1 = run L (connection st sid) before"
  define st2 where "st2 = run L (Marker_find st1 sid) between"
  have "\<exists>s'. filter (\<lambda>s. s_id s = sid) (sockets (run L (connection st sid) before)) = [s']
            \<and> s_connected s'
            \<and> s_fetch s' = s_fetch \<lparr>s_id = sid, s_connected = True, s_fetch = Querying,
                                     s_received = []\<rparr>
            \<and> allMarkers_events (s_received s') = []"
    by (rule run_pending [OF assms(2) connection_subscriber [OF assms(1)]])
       (simp_all add: allMarkers_events_def)
  then obtain s1 where s1: "filter (\<lambda>s. s_id s = sid) (sockets st1) = [s1]"
    "s_connected s1" "s_fetch s1 = Querying" "allMarkers_events (s_received s1) = []"
    unfolding st1_def by auto
  have queried: "filter (\<lambda>s. s_id s = sid) (sockets (Marker_find st1 sid))
                   = [s1\<lparr>s_fetch := Found (markers st1)\<rparr>]"
    using s1(1,3) by (rule Marker_find_subscriber)
  have "\<exists>s'. filter (\<lambda>s. s_id s = sid) (sockets (run L (Marker_find st1 sid) between)) = [s']
            \<and> s_connected s'
            \<and> s_fetch s' = s_fetch (s1\<lparr>s_fetch := Found (markers st1)\<rparr>)
            \<and> allMarkers_events (s_received s') = []"
    by (rule run_pending [OF assms(3) queried]) (simp_all add: s1)
  then obtain s where s: "filter (\<lambda>s. s_id s = sid) (sockets st2) = [s]"
    "s_connected s" "s_fetch s = Found (markers st1)" "allMarkers_events (s_received s) = []"
    unfolding st2_def by auto
  let ?s' = "s\<lparr>s_received := s_received s @ [(''allMarkers'', Markers (markers st1))],
               s_fetch := Sent\<rparr>"
  have sent: "filter (\<lambda>s. s_id s = sid) (sockets (sendAllMarkers st2 sid)) = [?s']"
    using s(1-3) by (rule sendAllMarkers_subscriber)
  have first: "received (sendAllMarkers st2 sid) sid
                 = received st2 sid @ [(''allMarkers'', Markers (markers st1))]"
    by (simp add: received_def sent s(1))
  have before: "allMarkers_events (received st2 sid) = []"
    by (simp add: received_def s(1,4))
  have query: "\<forall>t. received (Marker_find st1 sid) t = received st1 t"
    by (simp add: received_Marker_find)
  have others: "\<forall>t. t \<noteq> sid \<longrightarrow> received (sendAllMarkers st2 sid) t = received st2 t"
    by (simp add: received_def sendAllMarkers_others)
  have "s_fetch ?s' = Sent" by simp
  with assms(4) sent have
    "\<exists>s''. filter (\<lambda>s. s_id s = sid) (sockets (run L (sendAllMarkers st2 sid) later)) = [s'']
            \<and> s_fetch s'' = Sent
            \<and> allMarkers_events (s_received s'') = allMarkers_events (s_received ?s')"
    by (intro run_settled)
  then obtain s'' where
    "filter (\<lambda>s. s_id s = sid) (sockets (run L (sendAllMarkers st2 sid) later)) = [s'']"
    "allMarkers_events (s_received s'') = allMarkers_events (s_received ?s')"
    by blast
  then have once: "allMarkers_events (received (run L (sendAllMarkers st2 sid) later) sid)
                     = [(''allMarkers'', Markers (markers st1))]"
    using s(4) by (simp add: received_def allMarkers_events_def)
  from first before query others once show ?thesis
    unfolding st1_def st2_def by (intro conjI)
qed

text \<open>
  C9, as stated, fails: a marker created between the query of a connection's marker
  fetch and its completion is broadcast to the new subscriber, which receives
  \<^verbatim>\<open>newMarker\<close> before \<^verbatim>\<open>allMarkers\<close>; and the \<^verbatim>\<open>allMarkers\<close> it receives holds
  the markers of the query, without the new one.
\<close>

theorem connection_allMarkers_counterexample:
  "map fst (received (run demo_lib demo_state
       [Connection 7, AllMarkersQueried 7, PostMarkers demo_create, AllMarkersFetched 7]) 7)
     = [''newMarker'', ''allMarkers''] \<and>
   last (received (run demo_lib demo_state
       [Connection 7, AllMarkersQueried 7, PostMarkers demo_create, AllMarkersFetched 7]) 7)
     = (''allMarkers'', Markers []) \<and>
   length (markers (run demo_lib demo_state
       [Connection 7, AllMarkersQueried 7, PostMarkers demo_create, AllMarkersFetched 7])) = 1"
  by (simp add: run_def connection_def Marker_find_def sendAllMarkers_def post_markers_def
        Marker_create_def parseFloat_def or_null_def io_emit_def socket_emit_def received_def
        Let_def demo_lib_def demo_digits_def demo_state_def demo_create_def)

text \<open>
  A connection, a login before the query, a dropped position message before the
  completion, then a creation and a stray completion: \<^verbatim>\<open>allMarkers\<close> is the first
  event, and the only one of its name.
\<close>

theorem connection_allMarkers_witness:
  "7 \<notin> set (map s_id (sockets demo_state)) \<and>
   received (run demo_lib (Marker_find
       (run demo_lib (connection demo_state 7) [Login [''email'' \<mapsto> ''ada@example.org'']]) 7)
       [UpdatePosition demo_move_text]) 7 = [] \<and>
   received (sendAllMarkers (run demo_lib (Marker_find
       (run demo_lib (connection demo_state 7) [Login [''email'' \<mapsto> ''ada@example.org'']]) 7)
       [UpdatePosition demo_move_text]) 7) 7
     = [(''allMarkers'', Markers [])] \<and>
   map fst (allMarkers_events (received (run demo_lib (sendAllMarkers (run demo_lib (Marker_find
       (run demo_lib (connection demo_state 7) [Login [''email'' \<mapsto> ''ada@example.org'']]) 7)
       [UpdatePosition demo_move_text]) 7)
       [PostMarkers demo_create, AllMarkersFetched 7]) 7))
     = [''allMarkers'']"
proof -
  have fresh: "7 \<notin> set (map s_id (sockets demo_state))"
    by (simp add: demo_state_def)
  have st1: "run demo_lib (connection demo_state 7) [Login [''email'' \<mapsto> ''ada@example.org'']]
               = connection demo_state 7"
    by (simp add: run_def post_login_def connection_def User_findOne_def bcrypt_compare_def
          demo_state_def demo_user_def)
  have st2: "run demo_lib (Marker_find (connection demo_state 7) 7) [UpdatePosition demo_move_text]
               = Marker_find (connection demo_state 7) 7"
    by (simp add: run_def updatePosition_def demo_move_text_def)
  have quiet: "received (Marker_find (connection demo_state 7) 7) 7 = []"
    "received (connection demo_state 7) 7 = []" "markers (connection demo_state 7) = []"
    by (simp_all add: received_def Marker_find_def connection_def demo_state_def)
  from connection_allMarkers [OF fresh, of "[Login [''email'' \<mapsto> ''ada@example.org'']]"
         "[UpdatePosition demo_move_text]" "[PostMarkers demo_create, AllMarkersFetched 7]" demo_lib]
       fresh
  show ?thesis
    by (simp add: st1 st2 quiet)
qed

end
